theory Spec2Isabelle
  imports Complex_Main "HOL-Library.Sublist"
begin

section \<open>The store backend of \<open>backend/server.py\<close>\<close>

text \<open>
  The handlers of \<open>server.py\<close> are embedded as functions on an explicit database state.
  A collection of the document store is the list of its documents in insertion order;
  \<open>find_one\<close>, \<open>update_one\<close> and \<open>delete_one\<close> act on the first document that matches the
  query. A raised exception is the \<open>Inl\<close> of a sum. Python's \<open>int\<close> is \<open>int\<close>; a \<open>float\<close> is
  the real number it denotes; \<open>datetime\<close> values are seconds on an integer clock; a \<open>str\<close>
  is a \<open>string\<close>. The driver encodes an integer of a document in at most 8 bytes and
  raises \<open>OverflowError\<close> for any other, before anything reaches the store; this is
  modelled for the quantity of a cart item, which \<open>add_to_cart\<close> and \<open>update_cart_item\<close>
  write. The stock of a product and the numbers inside an order are taken inside that
  range.
\<close>

subsection \<open>Errors\<close>

text \<open>
  \<open>HTTPException(status_code, detail)\<close> carries a status and a message. A pydantic
  \<open>ValidationError\<close> raised inside a handler (by \<open>Product(**doc)\<close> on a stored document)
  is not caught by any handler; neither is the \<open>TypeError\<close> of \<open>Product(**None)\<close>, the
  \<open>OverflowError\<close> of the driver, or the \<open>PasswordSizeError\<close> and \<open>PasswordValueError\<close> of
  the password context.
\<close>

datatype error = HTTPException nat string | ValidationError | TypeError
  | OverflowError | PasswordSizeError | PasswordValueError

text \<open>The integers that the driver encodes: 8 bytes, signed.\<close>

definition int64 :: "int \<Rightarrow> bool" where
  "int64 v = (- (2 ^ 63) \<le> v \<and> v < 2 ^ 63)"

subsection \<open>Collection primitives\<close>

definition find_one :: "('a \<Rightarrow> bool) \<Rightarrow> 'a list \<Rightarrow> 'a option" where
  "find_one P xs = List.find P xs"

definition insert_one :: "'a \<Rightarrow> 'a list \<Rightarrow> 'a list" where
  "insert_one x xs = xs @ [x]"

text \<open>\<open>find(query).to_list(n)\<close>: the first \<open>n\<close> matching documents.\<close>

definition find_to_list :: "('a \<Rightarrow> bool) \<Rightarrow> nat \<Rightarrow> 'a list \<Rightarrow> 'a list" where
  "find_to_list P n xs = take n (filter P xs)"

text \<open>
  \<open>update_one(query, {"$set": ...})\<close>: the first matching document is rewritten by \<open>f\<close>;
  the first component is \<open>matched_count\<close>.
\<close>

fun update_one :: "('a \<Rightarrow> bool) \<Rightarrow> ('a \<Rightarrow> 'a) \<Rightarrow> 'a list \<Rightarrow> nat \<times> 'a list" where
  "update_one P f [] = (0, [])"
| "update_one P f (x # xs) =
     (if P x then (1, f x # xs)
      else (case update_one P f xs of (n, ys) \<Rightarrow> (n, x # ys)))"

text \<open>\<open>delete_one(query)\<close>: the first matching document is removed; the first component
  is \<open>deleted_count\<close>.\<close>

fun delete_one :: "('a \<Rightarrow> bool) \<Rightarrow> 'a list \<Rightarrow> nat \<times> 'a list" where
  "delete_one P [] = (0, [])"
| "delete_one P (x # xs) =
     (if P x then (1, xs)
      else (case delete_one P xs of (n, ys) \<Rightarrow> (n, x # ys)))"

definition delete_many :: "('a \<Rightarrow> bool) \<Rightarrow> 'a list \<Rightarrow> 'a list" where
  "delete_many P xs = filter (\<lambda>x. \<not> P x) xs"

subsection \<open>Models\<close>

text \<open>The pydantic model \<open>Product\<close>.\<close>

record product =
  p_id :: string
  p_name :: string
  p_description :: string
  p_price :: real
  p_image_url :: string
  p_category :: string
  p_stock :: int
  p_created_at :: int

text \<open>
  A document of \<open>db.products\<close>. The six fields that \<open>update_product\<close> can \<open>$set\<close> may hold
  \<open>null\<close> (\<open>None\<close>), because \<open>ProductUpdate\<close> admits an explicit \<open>null\<close> for each of them.
\<close>

record product_doc =
  pd_id :: string
  pd_name :: "string option"
  pd_description :: "string option"
  pd_price :: "real option"
  pd_image_url :: "string option"
  pd_category :: "string option"
  pd_stock :: "int option"
  pd_created_at :: int


text \<open>
  \<open>ProductUpdate\<close>: every field is \<open>Optional[...] = None\<close>, and the handler reads it with
  \<open>dict(exclude_unset=True)\<close>. So a field is either unset (\<open>None\<close>), or set to
  \<open>null\<close> (\<open>Some None\<close>), or set to a value (\<open>Some (Some v)\<close>).
\<close>

record product_update =
  pu_name :: "string option option"
  pu_description :: "string option option"
  pu_price :: "real option option"
  pu_image_url :: "string option option"
  pu_category :: "string option option"
  pu_stock :: "int option option"

record user =
  u_id :: string
  u_email :: string
  u_full_name :: string
  u_hashed_password :: string
  u_is_active :: bool
  u_created_at :: int

text \<open>The lower case of an ASCII letter; any other character is left as it is.\<close>

definition lower :: "char \<Rightarrow> char" where
  "lower c =
     (case map_of (zip ''ABCDEFGHIJKLMNOPQRSTUVWXYZ'' ''abcdefghijklmnopqrstuvwxyz'') c of
        Some l \<Rightarrow> l
      | None \<Rightarrow> c)"

text \<open>
  The field type \<open>EmailStr\<close> of \<open>UserCreate\<close> and \<open>UserLogin\<close>: the value of a valid
  address keeps the local part and has the part from the \<open>@\<close> on in lower case. The
  check of the address syntax, which rejects a request before the handler runs, is not
  modelled.
\<close>

definition EmailStr :: "string \<Rightarrow> string" where
  "EmailStr email =
     takeWhile (\<lambda>c. c \<noteq> CHR ''@'') email @ map lower (dropWhile (\<lambda>c. c \<noteq> CHR ''@'') email)"


record user_login =
  ul_email :: string
  ul_password :: string


definition UserLogin :: "string \<Rightarrow> string \<Rightarrow> user_login" where
  "UserLogin email password = \<lparr>ul_email = EmailStr email, ul_password = password\<rparr>"

text \<open>The claims signed into a bearer token: \<open>{"sub": ..., "exp": ...}\<close>.\<close>

record jwt_claims =
  sub :: string
  exp :: int

record token =
  access_token :: string
  token_type :: string

record cart_item =
  ci_id :: string
  ci_user_id :: string
  ci_product_id :: string
  ci_quantity :: int
  ci_created_at :: int

record cart_item_create =
  cc_product_id :: string
  cc_quantity :: int

text \<open>An opaque \<open>dict\<close> of a request body: JSON values, an object as an association list.\<close>

datatype json = JNull | JBool bool | JNum real | JStr string
  | JArr "json list" | JObj "(string \<times> json) list"

type_synonym dict = "(string \<times> json) list"

record order =
  o_id :: string
  o_user_id :: string
  o_items :: "dict list"
  o_total_amount :: real
  o_status :: string
  o_shipping_address :: dict
  o_created_at :: int

record order_create =
  oc_items :: "dict list"
  oc_total_amount :: real
  oc_shipping_address :: dict

text \<open>The four collections of \<open>db\<close>.\<close>

record db =
  users :: "user list"
  products :: "product_doc list"
  cart_items :: "cart_item list"
  orders :: "order list"

text \<open>
  What a request takes from outside the handler: the string that \<open>uuid.uuid4()\<close> yields,
  the clock \<open>datetime.utcnow()\<close>, the results of the password context (\<open>pwd_context.hash\<close>,
  \<open>pwd_context.verify\<close>) on a secret that it accepts, and the signing \<open>jwt.encode\<close> under
  \<open>SECRET_KEY\<close>.
\<close>

record world =
  uuid4 :: string
  utcnow :: int
  pwd_hash :: "string \<Rightarrow> string"
  pwd_verify :: "string \<Rightarrow> string \<Rightarrow> bool"
  jwt_encode :: "jwt_claims \<Rightarrow> string"

subsection \<open>Utility functions\<close>

definition ACCESS_TOKEN_EXPIRE_MINUTES :: int where
  "ACCESS_TOKEN_EXPIRE_MINUTES = 30"

text \<open>
  The password context validates the secret before it hashes or verifies: a secret of
  more than \<open>MAX_PASSWORD_SIZE\<close> characters raises \<open>PasswordSizeError\<close>, and the bcrypt scheme
  raises \<open>PasswordValueError\<close> for a secret with a NUL character.
\<close>

definition MAX_PASSWORD_SIZE :: nat where
  "MAX_PASSWORD_SIZE = 4096"

definition secret_error :: "string \<Rightarrow> error option" where
  "secret_error secret =
     (if MAX_PASSWORD_SIZE < length secret then Some PasswordSizeError
      else if CHR 0x00 \<in> set secret then Some PasswordValueError
      else None)"

definition verify_password :: "world \<Rightarrow> string \<Rightarrow> string \<Rightarrow> error + bool" where
  "verify_password w plain_password hashed_password =
     (case secret_error plain_password of
        Some e \<Rightarrow> Inl e
      | None \<Rightarrow> Inr (pwd_verify w plain_password hashed_password))"


text \<open>
  \<open>expires_delta\<close> is in seconds. The test \<open>if expires_delta:\<close> is false for \<open>None\<close> and
  for a zero delta; the token then expires after 15 minutes.
\<close>

definition create_access_token :: "world \<Rightarrow> string \<Rightarrow> int option \<Rightarrow> string" where
  "create_access_token w subject expires_delta =
     (let expire = (case expires_delta of
                      Some d \<Rightarrow> if d \<noteq> 0 then utcnow w + d else utcnow w + 15 * 60
                    | None \<Rightarrow> utcnow w + 15 * 60)
      in jwt_encode w \<lparr>sub = subject, exp = expire\<rparr>)"

subsection \<open>Authentication routes\<close>


text \<open>
  In \<open>not user or not verify_password(...)\<close> the password is verified only when a user
  has the email.
\<close>

definition login :: "world \<Rightarrow> user_login \<Rightarrow> db \<Rightarrow> error + token" where
  "login w user_login d =
     (case find_one (\<lambda>u. u_email u = ul_email user_login) (users d) of
        None \<Rightarrow> Inl (HTTPException 401 ''Incorrect email or password'')
      | Some usr \<Rightarrow>
          (case verify_password w (ul_password user_login) (u_hashed_password usr) of
             Inl e \<Rightarrow> Inl e
           | Inr verified \<Rightarrow>
               if \<not> verified
               then Inl (HTTPException 401 ''Incorrect email or password'')
               else
                 (let access_token_expires = ACCESS_TOKEN_EXPIRE_MINUTES * 60;
                      tok = create_access_token w (u_id usr) (Some access_token_expires)
                  in Inr \<lparr>access_token = tok, token_type = ''bearer''\<rparr>)))"

subsection \<open>Product routes\<close>

text \<open>
  \<open>Product(**doc)\<close> on a stored document: validation fails when one of the required
  fields holds \<open>null\<close>.
\<close>

definition Product :: "product_doc \<Rightarrow> error + product" where
  "Product doc =
     (case (pd_name doc, pd_description doc, pd_price doc,
            pd_image_url doc, pd_category doc, pd_stock doc) of
        (Some n, Some ds, Some pr, Some im, Some c, Some s) \<Rightarrow>
          Inr \<lparr>p_id = pd_id doc, p_name = n, p_description = ds, p_price = pr,
               p_image_url = im, p_category = c, p_stock = s,
               p_created_at = pd_created_at doc\<rparr>
      | _ \<Rightarrow> Inl ValidationError)"

text \<open>\<open>product_obj.dict()\<close>: the document that is inserted for a \<open>Product\<close>.\<close>

definition product_dict :: "product \<Rightarrow> product_doc" where
  "product_dict p =
     \<lparr>pd_id = p_id p, pd_name = Some (p_name p), pd_description = Some (p_description p),
      pd_price = Some (p_price p), pd_image_url = Some (p_image_url p),
      pd_category = Some (p_category p), pd_stock = Some (p_stock p),
      pd_created_at = p_created_at p\<rparr>"

text \<open>\<open>[Product(**product) for product in products]\<close>: the first invalid document raises.\<close>

fun Products :: "product_doc list \<Rightarrow> error + product list" where
  "Products [] = Inr []"
| "Products (doc # docs) =
     (case Product doc of
        Inl e \<Rightarrow> Inl e
      | Inr p \<Rightarrow> (case Products docs of Inl e \<Rightarrow> Inl e | Inr ps \<Rightarrow> Inr (p # ps)))"

text \<open>Python truthiness of an \<open>Optional[str]\<close>: \<open>None\<close> and the empty string are false.\<close>

definition truthy :: "string option \<Rightarrow> bool" where
  "truthy s = (case s of None \<Rightarrow> False | Some t \<Rightarrow> t \<noteq> [])"

text \<open>
  The store's \<open>{"$regex": pattern, "$options": "i"}\<close>. The pattern language is that of
  the store's regular-expression engine; the fragment modelled here is: an ordinary
  character, which matches itself up to the case of ASCII letters, and the dot, which
  matches any character but a newline. An ordinary character is an ASCII character that
  is neither a metacharacter nor the null character. A pattern with any other character
  is outside the fragment and \<open>parse_pattern\<close> gives \<open>None\<close> for it. A pattern matches
  a string when it matches at some position of it (the search is not anchored).
\<close>

datatype atom = Lit char | AnyChar

definition metachars :: "char list" where
  "metachars = CHR 0x5C # ''^$.|?*+()[]{}''"

definition ordinary :: "char \<Rightarrow> bool" where
  "ordinary c = (c \<notin> set metachars \<and> c \<noteq> CHR 0x00 \<and> \<not> digit7 c)"

fun parse_pattern :: "string \<Rightarrow> atom list option" where
  "parse_pattern [] = Some []"
| "parse_pattern (c # cs) =
     (if c = CHR ''.'' then map_option ((#) AnyChar) (parse_pattern cs)
      else if ordinary c then map_option ((#) (Lit c)) (parse_pattern cs)
      else None)"

fun atom_match :: "atom \<Rightarrow> char \<Rightarrow> bool" where
  "atom_match (Lit l) c = (lower l = lower c)"
| "atom_match AnyChar c = (c \<noteq> CHR 0x0A)"

fun match_here :: "atom list \<Rightarrow> string \<Rightarrow> bool" where
  "match_here [] s = True"
| "match_here (a # as) [] = False"
| "match_here (a # as) (c # cs) = (atom_match a c \<and> match_here as cs)"

fun regex_search :: "atom list \<Rightarrow> string \<Rightarrow> bool" where
  "regex_search as [] = match_here as []"
| "regex_search as (c # cs) = (match_here as (c # cs) \<or> regex_search as cs)"

text \<open>A \<open>$regex\<close> clause on a field: a \<open>null\<close> field matches no pattern.\<close>

definition field_regex :: "atom list \<Rightarrow> string option \<Rightarrow> bool" where
  "field_regex as v = (case v of None \<Rightarrow> False | Some s \<Rightarrow> regex_search as s)"

text \<open>
  The query that \<open>get_products\<close> builds: an optional \<open>"category"\<close> equality and an
  optional \<open>"$or"\<close> of the regex on \<open>name\<close> and on \<open>description\<close>.
\<close>

definition matches_query :: "string option \<Rightarrow> atom list option \<Rightarrow> product_doc \<Rightarrow> bool" where
  "matches_query qcategory qregex p =
     ((case qcategory of None \<Rightarrow> True | Some c \<Rightarrow> pd_category p = Some c) \<and>
      (case qregex of
         None \<Rightarrow> True
       | Some as \<Rightarrow> field_regex as (pd_name p) \<or> field_regex as (pd_description p)))"

text \<open>
  The \<open>"$or"\<close> clause is added only for a truthy \<open>search\<close>. The outer \<open>None\<close> stands for
  a pattern outside the modelled fragment.
\<close>

definition compile_search :: "string option \<Rightarrow> atom list option option" where
  "compile_search search =
     (if truthy search
      then (case search of None \<Rightarrow> Some None | Some s \<Rightarrow> map_option Some (parse_pattern s))
      else Some None)"

definition get_products :: "string option \<Rightarrow> string option \<Rightarrow> db \<Rightarrow> (error + product list) option" where
  "get_products category search d =
     (let qcategory = (if truthy category then category else None)
      in case compile_search search of
           None \<Rightarrow> None
         | Some qregex \<Rightarrow>
             Some (Products (find_to_list (matches_query qcategory qregex) 1000 (products d))))"

definition get_product :: "string \<Rightarrow> db \<Rightarrow> error + product" where
  "get_product product_id d =
     (case find_one (\<lambda>p. pd_id p = product_id) (products d) of
        None \<Rightarrow> Inl (HTTPException 404 ''Product not found'')
      | Some doc \<Rightarrow> Product doc)"


text \<open>\<open>update_data = product_update.dict(exclude_unset=True)\<close> is falsy when no field is set.\<close>

definition update_data_empty :: "product_update \<Rightarrow> bool" where
  "update_data_empty pu =
     (pu_name pu = None \<and> pu_description pu = None \<and> pu_price pu = None \<and>
      pu_image_url pu = None \<and> pu_category pu = None \<and> pu_stock pu = None)"

text \<open>\<open>{"$set": update_data}\<close> on one document.\<close>

definition set_update_data :: "product_update \<Rightarrow> product_doc \<Rightarrow> product_doc" where
  "set_update_data pu doc =
     doc\<lparr>pd_name := (case pu_name pu of None \<Rightarrow> pd_name doc | Some v \<Rightarrow> v),
         pd_description := (case pu_description pu of None \<Rightarrow> pd_description doc | Some v \<Rightarrow> v),
         pd_price := (case pu_price pu of None \<Rightarrow> pd_price doc | Some v \<Rightarrow> v),
         pd_image_url := (case pu_image_url pu of None \<Rightarrow> pd_image_url doc | Some v \<Rightarrow> v),
         pd_category := (case pu_category pu of None \<Rightarrow> pd_category doc | Some v \<Rightarrow> v),
         pd_stock := (case pu_stock pu of None \<Rightarrow> pd_stock doc | Some v \<Rightarrow> v)\<rparr>"

definition update_product :: "string \<Rightarrow> product_update \<Rightarrow> db \<Rightarrow> (error + product) \<times> db" where
  "update_product product_id pu d =
     (case find_one (\<lambda>p. pd_id p = product_id) (products d) of
        None \<Rightarrow> (Inl (HTTPException 404 ''Product not found''), d)
      | Some product_found \<Rightarrow>
          (let d' = (if \<not> update_data_empty pu
                     then d\<lparr>products := snd (update_one (\<lambda>p. pd_id p = product_id)
                                                (set_update_data pu) (products d))\<rparr>
                     else d)
           in case find_one (\<lambda>p. pd_id p = product_id) (products d') of
                None \<Rightarrow> (Inl TypeError, d')
              | Some updated_product \<Rightarrow> (Product updated_product, d')))"

definition delete_product :: "string \<Rightarrow> db \<Rightarrow> (error + string) \<times> db" where
  "delete_product product_id d =
     (case delete_one (\<lambda>p. pd_id p = product_id) (products d) of
        (deleted_count, ps) \<Rightarrow>
          if deleted_count = 0 then (Inl (HTTPException 404 ''Product not found''), d)
          else (Inr ''Product deleted successfully'', d\<lparr>products := ps\<rparr>))"

subsection \<open>Cart routes\<close>

text \<open>An entry of the cart listing: \<open>{"id": ..., "quantity": ..., "product": ...}\<close>.\<close>

record cart_entry =
  ce_id :: string
  ce_quantity :: int
  ce_product :: product

text \<open>The loop of \<open>get_cart\<close> over the fetched items, with \<open>result\<close> as accumulator.\<close>

fun get_cart_loop :: "product_doc list \<Rightarrow> cart_item list \<Rightarrow> cart_entry list \<Rightarrow> error + cart_entry list" where
  "get_cart_loop ps [] result = Inr result"
| "get_cart_loop ps (item # items) result =
     (case find_one (\<lambda>p. pd_id p = ci_product_id item) ps of
        None \<Rightarrow> get_cart_loop ps items result
      | Some doc \<Rightarrow>
          (case Product doc of
             Inl e \<Rightarrow> Inl e
           | Inr p \<Rightarrow>
               get_cart_loop ps items
                 (result @ [\<lparr>ce_id = ci_id item, ce_quantity = ci_quantity item,
                             ce_product = p\<rparr>])))"

definition get_cart :: "user \<Rightarrow> db \<Rightarrow> error + cart_entry list" where
  "get_cart current_user d =
     (let items = find_to_list (\<lambda>i. ci_user_id i = u_id current_user) 1000 (cart_items d)
      in get_cart_loop (products d) items [])"

text \<open>
  \<open>insert_one\<close> and \<open>update_one\<close> raise \<open>OverflowError\<close>, and write nothing, when the
  quantity they are to write is not an 8-byte integer.
\<close>

definition add_to_cart :: "world \<Rightarrow> cart_item_create \<Rightarrow> user \<Rightarrow> db \<Rightarrow> (error + string) \<times> db" where
  "add_to_cart w cart_item current_user d =
     (case find_one (\<lambda>p. pd_id p = cc_product_id cart_item) (products d) of
        None \<Rightarrow> (Inl (HTTPException 404 ''Product not found''), d)
      | Some product_found \<Rightarrow>
          (case find_one (\<lambda>i. ci_user_id i = u_id current_user \<and>
                               ci_product_id i = cc_product_id cart_item) (cart_items d) of
             Some existing_item \<Rightarrow>
               (let new_quantity = ci_quantity existing_item + cc_quantity cart_item
                in if \<not> int64 new_quantity then (Inl OverflowError, d)
                   else
                     (Inr ''Cart item updated'',
                      d\<lparr>cart_items := snd (update_one (\<lambda>i. ci_id i = ci_id existing_item)
                                             (\<lambda>i. i\<lparr>ci_quantity := new_quantity\<rparr>)
                                             (cart_items d))\<rparr>))
           | None \<Rightarrow>
               (let cart_item_obj = \<lparr>ci_id = uuid4 w, ci_user_id = u_id current_user,
                                      ci_product_id = cc_product_id cart_item,
                                      ci_quantity = cc_quantity cart_item,
                                      ci_created_at = utcnow w\<rparr>
                in if \<not> int64 (ci_quantity cart_item_obj) then (Inl OverflowError, d)
                   else
                     (Inr ''Item added to cart'',
                      d\<lparr>cart_items := insert_one cart_item_obj (cart_items d)\<rparr>))))"



subsection \<open>Order routes\<close>

definition create_order :: "world \<Rightarrow> order_create \<Rightarrow> user \<Rightarrow> db \<Rightarrow> order \<times> db" where
  "create_order w ord current_user d =
     (let order_obj = \<lparr>o_id = uuid4 w, o_user_id = u_id current_user,
                        o_items = oc_items ord, o_total_amount = oc_total_amount ord,
                        o_status = ''pending'',
                        o_shipping_address = oc_shipping_address ord,
                        o_created_at = utcnow w\<rparr>;
          d1 = d\<lparr>orders := insert_one order_obj (orders d)\<rparr>;
          d2 = d1\<lparr>cart_items := delete_many (\<lambda>i. ci_user_id i = u_id current_user)
                                   (cart_items d1)\<rparr>
      in (order_obj, d2))"

subsection \<open>Sample data at startup\<close>




section \<open>Invariants of the store\<close>

text \<open>
  The ids of the cart items are pairwise different (they are \<open>uuid4\<close> strings), and a user
  has at most one cart item for a product.
\<close>

definition cart_ids_distinct :: "db \<Rightarrow> bool" where
  "cart_ids_distinct d = distinct (map ci_id (cart_items d))"

definition cart_pairs_distinct :: "db \<Rightarrow> bool" where
  "cart_pairs_distinct d = distinct (map (\<lambda>i. (ci_user_id i, ci_product_id i)) (cart_items d))"

text \<open>The ids of the stored products are pairwise different.\<close>

definition products_ids_distinct :: "db \<Rightarrow> bool" where
  "products_ids_distinct d = distinct (map pd_id (products d))"


text \<open>
  The search of the specification: \<open>needle\<close> occurs in \<open>s\<close> as a contiguous substring,
  up to the case of letters.
\<close>

definition contains_ci :: "string \<Rightarrow> string \<Rightarrow> bool" where
  "contains_ci needle s = sublist (map lower needle) (map lower s)"

section \<open>Example stores\<close>

text \<open>Concrete worlds, users and stores on which the theorems below are instantiated.\<close>

definition world0 :: world where
  "world0 = \<lparr>uuid4 = ''id1'', utcnow = 100, pwd_hash = (\<lambda>p. ''#'' @ p),
         pwd_verify = (\<lambda>p h. h = ''#'' @ p), jwt_encode = (\<lambda>c. ''jwt:'' @ sub c)\<rparr>"

definition world1 :: world where
  "world1 = world0\<lparr>uuid4 := ''id2'', utcnow := 200\<rparr>"

definition alice :: user where
  "alice = \<lparr>u_id = ''u1'', u_email = ''a@x.io'', u_full_name = ''Alice'',
            u_hashed_password = ''#pw'', u_is_active = True, u_created_at = 0\<rparr>"

definition bob :: user where
  "bob = \<lparr>u_id = ''u2'', u_email = ''b@x.io'', u_full_name = ''Bob'',
          u_hashed_password = ''#pw2'', u_is_active = True, u_created_at = 1\<rparr>"

definition db_alice :: db where
  "db_alice = \<lparr>users = [alice], products = [], cart_items = [], orders = []\<rparr>"

definition prod_a :: product_doc where
  "prod_a = \<lparr>pd_id = ''p1'', pd_name = Some ''Lamp'', pd_description = Some ''A desk lamp'',
             pd_price = Some 20, pd_image_url = Some ''l.png'', pd_category = Some ''Home'',
             pd_stock = Some 3, pd_created_at = 5\<rparr>"

definition prod_b :: product_doc where
  "prod_b = \<lparr>pd_id = ''p2'', pd_name = Some ''Mug'', pd_description = Some ''Tea mug'',
             pd_price = Some 4.5, pd_image_url = Some ''m.png'', pd_category = Some ''Kitchen'',
             pd_stock = Some 0, pd_created_at = 6\<rparr>"

definition item_a1 :: cart_item where
  "item_a1 = \<lparr>ci_id = ''c1'', ci_user_id = ''u1'', ci_product_id = ''p1'',
              ci_quantity = 2, ci_created_at = 10\<rparr>"

definition item_b1 :: cart_item where
  "item_b1 = \<lparr>ci_id = ''c2'', ci_user_id = ''u2'', ci_product_id = ''p1'',
              ci_quantity = 1, ci_created_at = 11\<rparr>"

definition db_cart :: db where
  "db_cart = \<lparr>users = [alice, bob], products = [prod_a, prod_b],
              cart_items = [item_a1, item_b1], orders = []\<rparr>"

definition add_p1 :: cart_item_create where
  "add_p1 = \<lparr>cc_product_id = ''p1'', cc_quantity = 3\<rparr>"

definition add_p2_two :: cart_item_create where
  "add_p2_two = \<lparr>cc_product_id = ''p2'', cc_quantity = 2\<rparr>"

definition add_p2_three :: cart_item_create where
  "add_p2_three = \<lparr>cc_product_id = ''p2'', cc_quantity = 3\<rparr>"

definition add_p9 :: cart_item_create where
  "add_p9 = \<lparr>cc_product_id = ''p9'', cc_quantity = 1\<rparr>"

definition order_req :: order_create where
  "order_req = \<lparr>oc_items = [[(''product_id'', JStr ''zz''), (''quantity'', JNum 9)]],
                oc_total_amount = 59.97,
                oc_shipping_address = [(''city'', JStr ''Oslo'')]\<rparr>"

definition no_update :: product_update where
  "no_update = \<lparr>pu_name = None, pu_description = None, pu_price = None,
                pu_image_url = None, pu_category = None, pu_stock = None\<rparr>"

definition price_update :: product_update where
  "price_update = no_update\<lparr>pu_price := Some (Some 25), pu_stock := Some (Some 9)\<rparr>"

definition null_name_update :: product_update where
  "null_name_update = no_update\<lparr>pu_name := Some None\<rparr>"

definition lamp :: product where
  "lamp = \<lparr>p_id = ''p1'', p_name = ''Lamp'', p_description = ''A desk lamp'', p_price = 20,
           p_image_url = ''l.png'', p_category = ''Home'', p_stock = 3, p_created_at = 5\<rparr>"

definition mug :: product where
  "mug = \<lparr>p_id = ''p2'', p_name = ''Mug'', p_description = ''Tea mug'', p_price = 4.5,
          p_image_url = ''m.png'', p_category = ''Kitchen'', p_stock = 0, p_created_at = 6\<rparr>"





definition big_product :: "nat \<Rightarrow> product" where
  "big_product n = \<lparr>p_id = CHR ''p'' # replicate n CHR ''0'', p_name = ''Item'',
                    p_description = ''An item'', p_price = 1, p_image_url = ''i.png'',
                    p_category = ''Bulk'', p_stock = 1, p_created_at = 0\<rparr>"

definition big_item :: "nat \<Rightarrow> cart_item" where
  "big_item n = \<lparr>ci_id = CHR ''c'' # replicate n CHR ''0'', ci_user_id = ''u1'',
                 ci_product_id = CHR ''p'' # replicate n CHR ''0'', ci_quantity = 1,
                 ci_created_at = 0\<rparr>"

definition big_entry :: "nat \<Rightarrow> cart_entry" where
  "big_entry n = \<lparr>ce_id = CHR ''c'' # replicate n CHR ''0'', ce_quantity = 1,
                  ce_product = big_product n\<rparr>"

definition item_a2 :: cart_item where
  "item_a2 = \<lparr>ci_id = ''c3'', ci_user_id = ''u1'', ci_product_id = ''p7'',
              ci_quantity = 4, ci_created_at = 12\<rparr>"

definition db_dangling :: db where
  "db_dangling = db_cart\<lparr>cart_items := [item_a1, item_b1, item_a2]\<rparr>"

text \<open>A store with 1001 products and a user who has one cart item for each of them.\<close>

definition big_db :: db where
  "big_db = \<lparr>users = [alice], products = map (\<lambda>n. product_dict (big_product n)) [0..<1001],
             cart_items = map big_item [0..<1001], orders = []\<rparr>"


text \<open>A password with a NUL character.\<close>

definition nul_password :: string where
  "nul_password = [CHR ''p'', CHR ''w'', CHR 0x00]"

text \<open>The store \<open>db_cart\<close> after the name of product \<open>p1\<close> has been set to \<open>null\<close>.\<close>

definition db_null :: db where
  "db_null = db_cart\<lparr>products := [prod_a\<lparr>pd_name := None\<rparr>, prod_b]\<rparr>"

definition add_p2_big :: cart_item_create where
  "add_p2_big = \<lparr>cc_product_id = ''p2'', cc_quantity = 2 ^ 63\<rparr>"

definition add_p1_big :: cart_item_create where
  "add_p1_big = \<lparr>cc_product_id = ''p1'', cc_quantity = 2 ^ 63 - 2\<rparr>"

section \<open>Properties\<close>

subsection \<open>Lookup in a collection\<close>

lemma find_one_None: "find_one P xs = None \<longleftrightarrow> (\<forall>x\<in>set xs. \<not> P x)"
  by (auto simp: find_one_def find_None_iff)

lemma find_one_Some_set: "find_one P xs = Some x \<Longrightarrow> x \<in> set xs \<and> P x"
  by (auto simp: find_one_def find_Some_iff)

lemma find_one_exists: "\<exists>x\<in>set xs. P x \<Longrightarrow> \<exists>y. find_one P xs = Some y"
  by (cases "find_one P xs") (auto simp: find_one_None)

subsection \<open>Login\<close>

text \<open>
  When the password context accepts the password, a login with an email that no stored
  user has, and a login with the email of a stored user but a password that does not
  verify against the stored hash, raise the same exception: status 401 with the detail
  \<open>Incorrect email or password\<close>.
\<close>

lemma login_rejected_uniform:
  assumes no_user: "\<forall>u\<in>set (users d1). u_email u \<noteq> ul_email l1"
      and known: "\<exists>u\<in>set (users d2). u_email u = ul_email l2"
      and wrong: "\<forall>u\<in>set (users d2). u_email u = ul_email l2 \<longrightarrow>
                    verify_password w2 (ul_password l2) (u_hashed_password u) = Inr False"
    shows "login w1 l1 d1 = Inl (HTTPException 401 ''Incorrect email or password'')
         \<and> login w2 l2 d2 = Inl (HTTPException 401 ''Incorrect email or password'')"
proof -
  from no_user have "find_one (\<lambda>u. u_email u = ul_email l1) (users d1) = None"
    by (simp add: find_one_None)
  then have a: "login w1 l1 d1 = Inl (HTTPException 401 ''Incorrect email or password'')"
    by (simp add: login_def)
  from known obtain usr where f: "find_one (\<lambda>u. u_email u = ul_email l2) (users d2) = Some usr"
    using find_one_exists [of "users d2" "\<lambda>u. u_email u = ul_email l2"] by blast
  from find_one_Some_set [OF f] wrong
  have "verify_password w2 (ul_password l2) (u_hashed_password usr) = Inr False"
    by blast
  with f have b: "login w2 l2 d2 = Inl (HTTPException 401 ''Incorrect email or password'')"
    by (simp add: login_def)
  from a b show ?thesis by simp
qed

text \<open>
  The password is verified only for a stored email, and the password context raises on
  a password that it does not accept; \<open>login\<close> does not catch that.
\<close>

lemma login_unknown_email:
  "\<forall>u\<in>set (users d). u_email u \<noteq> ul_email l \<Longrightarrow>
     login w l d = Inl (HTTPException 401 ''Incorrect email or password'')"
  by (simp add: login_def find_one_None [THEN iffD2])

lemma login_known_email_raises:
  assumes "\<exists>u\<in>set (users d). u_email u = ul_email l"
      and "secret_error (ul_password l) = Some e"
    shows "login w l d = Inl e"
proof -
  from assms(1) obtain usr where "find_one (\<lambda>u. u_email u = ul_email l) (users d) = Some usr"
    using find_one_exists [of "users d" "\<lambda>u. u_email u = ul_email l"] by blast
  with assms(2) show ?thesis
    by (simp add: login_def verify_password_def)
qed

text \<open>
  C5. The two failing logins are to be indistinguishable: same status, same message. The
  code does not keep this for a password with a NUL character: with an email that no
  user has, \<open>login\<close> raises the 401 \<open>Incorrect email or password\<close>; with the email of a
  stored user, the verification raises \<open>PasswordValueError\<close>, which is not the 401.
\<close>

theorem login_nul_password_distinguishes:
  "map u_email (users db_alice) = [''a@x.io'']
   \<and> login world0 (UserLogin ''b@x.io'' nul_password) db_alice
       = Inl (HTTPException 401 ''Incorrect email or password'')
   \<and> login world0 (UserLogin ''a@x.io'' nul_password) db_alice = Inl PasswordValueError
   \<and> login world0 (UserLogin ''a@x.io'' nul_password) db_alice
       \<noteq> login world0 (UserLogin ''b@x.io'' nul_password) db_alice"
proof -
  have e: "map u_email (users db_alice) = [''a@x.io'']"
    by (simp add: db_alice_def alice_def)
  have m: "EmailStr ''a@x.io'' = ''a@x.io''" "EmailStr ''b@x.io'' = ''b@x.io''"
    by (simp_all add: EmailStr_def lower_def)
  have s: "secret_error nul_password = Some PasswordValueError"
    by (simp add: secret_error_def nul_password_def MAX_PASSWORD_SIZE_def)
  have a: "login world0 (UserLogin ''b@x.io'' nul_password) db_alice
       = Inl (HTTPException 401 ''Incorrect email or password'')"
    by (rule login_unknown_email) (simp add: UserLogin_def m db_alice_def alice_def)
  have b: "login world0 (UserLogin ''a@x.io'' nul_password) db_alice = Inl PasswordValueError"
    by (rule login_known_email_raises)
       (simp_all add: UserLogin_def m s db_alice_def alice_def)
  from e a b show ?thesis by simp
qed

subsection \<open>Registration\<close>








subsection \<open>Updating and deleting the first match\<close>



lemma distinct_map_eq:
  "distinct (map g xs) \<Longrightarrow> x \<in> set xs \<Longrightarrow> y \<in> set xs \<Longrightarrow> g x = g y \<Longrightarrow> x = y"
  by (auto simp: distinct_map dest: inj_onD)

lemma update_one_key:
  assumes "distinct (map g xs)" and "x \<in> set xs" and "g x = k" and "Q x"
  shows "update_one (\<lambda>y. g y = k \<and> Q y) f xs = (1, map (\<lambda>y. if g y = k then f y else y) xs)"
  using assms
proof (induction xs)
  case Nil
  then show ?case by simp
next
  case (Cons y ys)
  show ?case
  proof (cases "g y = k")
    case True
    with Cons.prems have xy: "x = y"
      using distinct_map_eq [of g "y # ys" x y] by simp
    from True Cons.prems(1) have "\<forall>z\<in>set ys. g z \<noteq> k" by (auto simp: image_iff)
    then have "map (\<lambda>y. if g y = k then f y else y) ys = ys"
      by (induction ys) auto
    with True xy Cons.prems(4) show ?thesis by simp
  next
    case False
    with Cons.prems have "x \<in> set ys" by auto
    with Cons False show ?thesis by simp
  qed
qed


subsection \<open>Changing and removing a cart item\<close>






subsection \<open>Adding to the cart\<close>

lemma update_one_id:
  assumes "distinct (map g xs)" and "x \<in> set xs"
  shows "update_one (\<lambda>y. g y = g x) f xs = (1, map (\<lambda>y. if g y = g x then f y else y) xs)"
  using update_one_key [of g xs x "g x" "\<lambda>_. True" f] assms by simp

lemma add_to_cart_no_product:
  assumes "\<forall>p\<in>set (products d). pd_id p \<noteq> cc_product_id c"
  shows "add_to_cart w c cu d = (Inl (HTTPException 404 ''Product not found''), d)"
proof -
  from assms have "find_one (\<lambda>p. pd_id p = cc_product_id c) (products d) = None"
    by (simp add: find_one_None)
  then show ?thesis by (simp add: add_to_cart_def)
qed

lemma add_to_cart_new:
  assumes "\<exists>p\<in>set (products d). pd_id p = cc_product_id c"
    and "\<forall>i\<in>set (cart_items d). \<not> (ci_user_id i = u_id cu \<and> ci_product_id i = cc_product_id c)"
    and "int64 (cc_quantity c)"
  shows "add_to_cart w c cu d =
           (Inr ''Item added to cart'',
            d\<lparr>cart_items := cart_items d @
                 [\<lparr>ci_id = uuid4 w, ci_user_id = u_id cu, ci_product_id = cc_product_id c,
                   ci_quantity = cc_quantity c, ci_created_at = utcnow w\<rparr>]\<rparr>)"
proof -
  from assms(1) obtain p where "find_one (\<lambda>p. pd_id p = cc_product_id c) (products d) = Some p"
    using find_one_exists [of "products d" "\<lambda>p. pd_id p = cc_product_id c"] by blast
  moreover from assms(2)
  have "find_one (\<lambda>i. ci_user_id i = u_id cu \<and> ci_product_id i = cc_product_id c) (cart_items d) = None"
    by (simp add: find_one_None)
  ultimately show ?thesis using assms(3) by (simp add: add_to_cart_def insert_one_def)
qed

lemma add_to_cart_new_overflow:
  assumes "\<exists>p\<in>set (products d). pd_id p = cc_product_id c"
    and "\<forall>i\<in>set (cart_items d). \<not> (ci_user_id i = u_id cu \<and> ci_product_id i = cc_product_id c)"
    and "\<not> int64 (cc_quantity c)"
  shows "add_to_cart w c cu d = (Inl OverflowError, d)"
proof -
  from assms(1) obtain p where "find_one (\<lambda>p. pd_id p = cc_product_id c) (products d) = Some p"
    using find_one_exists [of "products d" "\<lambda>p. pd_id p = cc_product_id c"] by blast
  moreover from assms(2)
  have "find_one (\<lambda>i. ci_user_id i = u_id cu \<and> ci_product_id i = cc_product_id c) (cart_items d) = None"
    by (simp add: find_one_None)
  ultimately show ?thesis using assms(3) by (simp add: add_to_cart_def)
qed

lemma add_to_cart_lookup:
  assumes prod: "\<exists>p\<in>set (products d). pd_id p = cc_product_id c"
    and pairs: "cart_pairs_distinct d"
    and it: "it \<in> set (cart_items d)"
    and own: "ci_user_id it = u_id cu" and ref: "ci_product_id it = cc_product_id c"
  shows "\<exists>p. find_one (\<lambda>p. pd_id p = cc_product_id c) (products d) = Some p"
    and "find_one (\<lambda>i. ci_user_id i = u_id cu \<and> ci_product_id i = cc_product_id c)
           (cart_items d) = Some it"
proof -
  from prod show "\<exists>p. find_one (\<lambda>p. pd_id p = cc_product_id c) (products d) = Some p"
    using find_one_exists [of "products d" "\<lambda>p. pd_id p = cc_product_id c"] by blast
  from it own ref obtain e where
    e: "find_one (\<lambda>i. ci_user_id i = u_id cu \<and> ci_product_id i = cc_product_id c) (cart_items d) = Some e"
    using find_one_exists [of "cart_items d"
        "\<lambda>i. ci_user_id i = u_id cu \<and> ci_product_id i = cc_product_id c"] by blast
  from find_one_Some_set [OF e] it own ref pairs have "e = it"
    using distinct_map_eq [of "\<lambda>i. (ci_user_id i, ci_product_id i)" "cart_items d" e it]
    by (simp add: cart_pairs_distinct_def)
  with e show "find_one (\<lambda>i. ci_user_id i = u_id cu \<and> ci_product_id i = cc_product_id c)
                     (cart_items d) = Some it"
    by simp
qed

lemma add_to_cart_existing:
  assumes prod: "\<exists>p\<in>set (products d). pd_id p = cc_product_id c"
    and ids: "cart_ids_distinct d" and pairs: "cart_pairs_distinct d"
    and it: "it \<in> set (cart_items d)"
    and own: "ci_user_id it = u_id cu" and ref: "ci_product_id it = cc_product_id c"
    and rng: "int64 (ci_quantity it + cc_quantity c)"
  shows "add_to_cart w c cu d =
           (Inr ''Cart item updated'',
            d\<lparr>cart_items :=
                 map (\<lambda>i. if ci_id i = ci_id it
                          then i\<lparr>ci_quantity := ci_quantity it + cc_quantity c\<rparr> else i)
                     (cart_items d)\<rparr>)"
proof -
  from add_to_cart_lookup [OF prod pairs it own ref]
  obtain p where p: "find_one (\<lambda>p. pd_id p = cc_product_id c) (products d) = Some p"
    and e': "find_one (\<lambda>i. ci_user_id i = u_id cu \<and> ci_product_id i = cc_product_id c)
                     (cart_items d) = Some it"
    by blast
  from ids it have "update_one (\<lambda>i. ci_id i = ci_id it)
                      (\<lambda>i. i\<lparr>ci_quantity := ci_quantity it + cc_quantity c\<rparr>) (cart_items d)
      = (1, map (\<lambda>i. if ci_id i = ci_id it
                     then i\<lparr>ci_quantity := ci_quantity it + cc_quantity c\<rparr> else i) (cart_items d))"
    using update_one_id [of ci_id "cart_items d" it] by (simp add: cart_ids_distinct_def)
  with p e' rng show ?thesis by (simp add: add_to_cart_def)
qed

lemma add_to_cart_existing_overflow:
  assumes prod: "\<exists>p\<in>set (products d). pd_id p = cc_product_id c"
    and pairs: "cart_pairs_distinct d"
    and it: "it \<in> set (cart_items d)"
    and own: "ci_user_id it = u_id cu" and ref: "ci_product_id it = cc_product_id c"
    and rng: "\<not> int64 (ci_quantity it + cc_quantity c)"
  shows "add_to_cart w c cu d = (Inl OverflowError, d)"
proof -
  from add_to_cart_lookup [OF prod pairs it own ref]
  obtain p where p: "find_one (\<lambda>p. pd_id p = cc_product_id c) (products d) = Some p"
    and e': "find_one (\<lambda>i. ci_user_id i = u_id cu \<and> ci_product_id i = cc_product_id c)
                     (cart_items d) = Some it"
    by blast
  with rng show ?thesis by (simp add: add_to_cart_def)
qed

lemma map_key_quantity:
  "map ci_id (map (\<lambda>i. if ci_id i = k then i\<lparr>ci_quantity := n\<rparr> else i) xs) = map ci_id xs"
  "map (\<lambda>i. (ci_user_id i, ci_product_id i))
       (map (\<lambda>i. if ci_id i = k then i\<lparr>ci_quantity := n\<rparr> else i) xs)
     = map (\<lambda>i. (ci_user_id i, ci_product_id i)) xs"
  by (induction xs) auto

lemma map_key_absent:
  "k \<notin> set (map g xs) \<Longrightarrow> map (\<lambda>i. if g i = k then f i else i) xs = xs"
  by (intro map_idI) (auto simp: image_iff)

lemma add_to_cart_invariant:
  assumes ids: "cart_ids_distinct d" and pairs: "cart_pairs_distinct d"
    and fresh: "uuid4 w \<notin> set (map ci_id (cart_items d))"
  shows "cart_ids_distinct (snd (add_to_cart w c cu d))
       \<and> cart_pairs_distinct (snd (add_to_cart w c cu d))"
proof (cases "\<exists>p\<in>set (products d). pd_id p = cc_product_id c")
  case False
  then have "add_to_cart w c cu d = (Inl (HTTPException 404 ''Product not found''), d)"
    by (intro add_to_cart_no_product) simp
  with ids pairs show ?thesis by simp
next
  case True
  show ?thesis
  proof (cases "\<exists>i\<in>set (cart_items d). ci_user_id i = u_id cu \<and> ci_product_id i = cc_product_id c")
    case False
    then have n: "\<forall>i\<in>set (cart_items d).
                    \<not> (ci_user_id i = u_id cu \<and> ci_product_id i = cc_product_id c)"
      by simp
    from n have new: "(u_id cu, cc_product_id c)
                   \<notin> (\<lambda>i. (ci_user_id i, ci_product_id i)) ` set (cart_items d)"
      by auto
    show ?thesis
    proof (cases "int64 (cc_quantity c)")
      case True
      with add_to_cart_new [OF \<open>\<exists>p\<in>set (products d). pd_id p = cc_product_id c\<close> n, of w]
        ids pairs fresh new
      show ?thesis
        by (simp add: cart_ids_distinct_def cart_pairs_distinct_def)
    next
      case False
      with add_to_cart_new_overflow [OF \<open>\<exists>p\<in>set (products d). pd_id p = cc_product_id c\<close> n, of w]
        ids pairs
      show ?thesis by simp
    qed
  next
    case ex: True
    then obtain it where it: "it \<in> set (cart_items d)" "ci_user_id it = u_id cu"
      "ci_product_id it = cc_product_id c" by blast
    show ?thesis
    proof (cases "int64 (ci_quantity it + cc_quantity c)")
      case True
      from add_to_cart_existing [OF \<open>\<exists>p\<in>set (products d). pd_id p = cc_product_id c\<close>
          ids pairs it True, of w] ids pairs
      show ?thesis
        by (simp add: cart_ids_distinct_def cart_pairs_distinct_def map_key_quantity del: map_map)
    next
      case False
      from add_to_cart_existing_overflow [OF \<open>\<exists>p\<in>set (products d). pd_id p = cc_product_id c\<close>
          pairs it False, of w] ids pairs
      show ?thesis by simp
    qed
  qed
qed

lemma add_to_cart_twice:
  assumes prod: "\<exists>p\<in>set (products d). pd_id p = cc_product_id c"
    and ids: "cart_ids_distinct d" and pairs: "cart_pairs_distinct d"
    and fresh: "uuid4 w \<notin> set (map ci_id (cart_items d))"
    and none: "\<forall>i\<in>set (cart_items d).
                 \<not> (ci_user_id i = u_id cu \<and> ci_product_id i = cc_product_id c)"
    and same: "cc_product_id c' = cc_product_id c"
    and r1: "int64 (cc_quantity c)" and r2: "int64 (cc_quantity c + cc_quantity c')"
  shows "fst (add_to_cart w c cu d) = Inr ''Item added to cart''"
    and "fst (add_to_cart w' c' cu (snd (add_to_cart w c cu d))) = Inr ''Cart item updated''"
    and "cart_items (snd (add_to_cart w' c' cu (snd (add_to_cart w c cu d)))) =
           cart_items d @
             [\<lparr>ci_id = uuid4 w, ci_user_id = u_id cu, ci_product_id = cc_product_id c,
               ci_quantity = cc_quantity c + cc_quantity c', ci_created_at = utcnow w\<rparr>]"
proof -
  let ?new = "\<lparr>ci_id = uuid4 w, ci_user_id = u_id cu, ci_product_id = cc_product_id c,
               ci_quantity = cc_quantity c, ci_created_at = utcnow w\<rparr>"
  let ?d1 = "snd (add_to_cart w c cu d)"
  have first: "add_to_cart w c cu d = (Inr ''Item added to cart'', d\<lparr>cart_items := cart_items d @ [?new]\<rparr>)"
    by (rule add_to_cart_new [OF prod none r1])
  then show "fst (add_to_cart w c cu d) = Inr ''Item added to cart''" by simp
  from first have d1: "cart_items ?d1 = cart_items d @ [?new]" "products ?d1 = products d"
    by simp_all
  have inv: "cart_ids_distinct ?d1" "cart_pairs_distinct ?d1"
    using add_to_cart_invariant [OF ids pairs fresh, of c cu] by simp_all
  have prod1: "\<exists>p\<in>set (products ?d1). pd_id p = cc_product_id c'"
    using prod same d1 by simp
  have mem: "?new \<in> set (cart_items ?d1)" using d1 by simp
  have second: "add_to_cart w' c' cu ?d1 =
           (Inr ''Cart item updated'',
            ?d1\<lparr>cart_items :=
                 map (\<lambda>i. if ci_id i = ci_id ?new
                          then i\<lparr>ci_quantity := ci_quantity ?new + cc_quantity c'\<rparr> else i)
                     (cart_items ?d1)\<rparr>)"
    using add_to_cart_existing [OF prod1 inv mem, of cu w'] same r2 by simp
  then show "fst (add_to_cart w' c' cu ?d1) = Inr ''Cart item updated''" by simp
  from second d1 fresh show "cart_items (snd (add_to_cart w' c' cu ?d1)) =
           cart_items d @
             [\<lparr>ci_id = uuid4 w, ci_user_id = u_id cu, ci_product_id = cc_product_id c,
               ci_quantity = cc_quantity c + cc_quantity c', ci_created_at = utcnow w\<rparr>]"
    by (simp add: map_key_absent)
qed

text \<open>
  C1, as the code has it. When no stored product has the requested product id,
  \<open>add_to_cart\<close> raises status 404 \<open>Product not found\<close> and the store is unchanged. When
  the product exists and the caller has no cart item for it, one cart item with the
  requested quantity is appended and the message is \<open>Item added to cart\<close>, provided the
  quantity is an 8-byte integer. When the caller has a cart item for it, the quantity of
  that item grows by the requested amount, nothing else changes and the message is
  \<open>Cart item updated\<close>, provided the sum is an 8-byte integer. So two additions of the
  same product, of quantities \<open>m\<close> and \<open>n\<close>, by a user who had no item for it leave one
  new item, of quantity \<open>m + n\<close>, when \<open>m\<close> and \<open>m + n\<close> are 8-byte integers. The store
  stays with distinct item ids and one item for each user and product.
\<close>

theorem add_to_cart_merge:
  "((\<forall>p\<in>set (products d). pd_id p \<noteq> cc_product_id c) \<longrightarrow>
      add_to_cart w c cu d = (Inl (HTTPException 404 ''Product not found''), d))
   \<and> ((\<exists>p\<in>set (products d). pd_id p = cc_product_id c) \<longrightarrow>
        ((\<forall>i\<in>set (cart_items d).
            \<not> (ci_user_id i = u_id cu \<and> ci_product_id i = cc_product_id c))
          \<and> int64 (cc_quantity c) \<longrightarrow>
          add_to_cart w c cu d =
            (Inr ''Item added to cart'',
             d\<lparr>cart_items := cart_items d @
                  [\<lparr>ci_id = uuid4 w, ci_user_id = u_id cu, ci_product_id = cc_product_id c,
                    ci_quantity = cc_quantity c, ci_created_at = utcnow w\<rparr>]\<rparr>))
        \<and> (cart_ids_distinct d \<and> cart_pairs_distinct d \<and> it \<in> set (cart_items d)
             \<and> ci_user_id it = u_id cu \<and> ci_product_id it = cc_product_id c
             \<and> int64 (ci_quantity it + cc_quantity c) \<longrightarrow>
          add_to_cart w c cu d =
            (Inr ''Cart item updated'',
             d\<lparr>cart_items :=
                  map (\<lambda>i. if ci_id i = ci_id it
                           then i\<lparr>ci_quantity := ci_quantity it + cc_quantity c\<rparr> else i)
                      (cart_items d)\<rparr>))
        \<and> (cart_ids_distinct d \<and> cart_pairs_distinct d
             \<and> uuid4 w \<notin> set (map ci_id (cart_items d))
             \<and> (\<forall>i\<in>set (cart_items d).
                   \<not> (ci_user_id i = u_id cu \<and> ci_product_id i = cc_product_id c))
             \<and> cc_product_id c' = cc_product_id c
             \<and> int64 (cc_quantity c) \<and> int64 (cc_quantity c + cc_quantity c') \<longrightarrow>
          fst (add_to_cart w c cu d) = Inr ''Item added to cart''
          \<and> fst (add_to_cart w' c' cu (snd (add_to_cart w c cu d))) = Inr ''Cart item updated''
          \<and> cart_items (snd (add_to_cart w' c' cu (snd (add_to_cart w c cu d)))) =
              cart_items d @
                [\<lparr>ci_id = uuid4 w, ci_user_id = u_id cu, ci_product_id = cc_product_id c,
                  ci_quantity = cc_quantity c + cc_quantity c', ci_created_at = utcnow w\<rparr>]))
   \<and> (cart_ids_distinct d \<and> cart_pairs_distinct d
        \<and> uuid4 w \<notin> set (map ci_id (cart_items d)) \<longrightarrow>
      cart_ids_distinct (snd (add_to_cart w c cu d))
      \<and> cart_pairs_distinct (snd (add_to_cart w c cu d)))"
proof (intro conjI impI)
  assume "\<forall>p\<in>set (products d). pd_id p \<noteq> cc_product_id c"
  then show "add_to_cart w c cu d = (Inl (HTTPException 404 ''Product not found''), d)"
    by (rule add_to_cart_no_product)
next
  assume p: "\<exists>p\<in>set (products d). pd_id p = cc_product_id c"
    and h: "(\<forall>i\<in>set (cart_items d).
              \<not> (ci_user_id i = u_id cu \<and> ci_product_id i = cc_product_id c))
          \<and> int64 (cc_quantity c)"
  show "add_to_cart w c cu d =
            (Inr ''Item added to cart'',
             d\<lparr>cart_items := cart_items d @
                  [\<lparr>ci_id = uuid4 w, ci_user_id = u_id cu, ci_product_id = cc_product_id c,
                    ci_quantity = cc_quantity c, ci_created_at = utcnow w\<rparr>]\<rparr>)"
    using add_to_cart_new [OF p, of cu w] h by simp
next
  assume p: "\<exists>p\<in>set (products d). pd_id p = cc_product_id c"
    and h: "cart_ids_distinct d \<and> cart_pairs_distinct d \<and> it \<in> set (cart_items d)
             \<and> ci_user_id it = u_id cu \<and> ci_product_id it = cc_product_id c
             \<and> int64 (ci_quantity it + cc_quantity c)"
  show "add_to_cart w c cu d =
            (Inr ''Cart item updated'',
             d\<lparr>cart_items :=
                  map (\<lambda>i. if ci_id i = ci_id it
                           then i\<lparr>ci_quantity := ci_quantity it + cc_quantity c\<rparr> else i)
                      (cart_items d)\<rparr>)"
    using add_to_cart_existing [OF p, of it cu w] h by simp
next
  assume p: "\<exists>p\<in>set (products d). pd_id p = cc_product_id c"
    and h: "cart_ids_distinct d \<and> cart_pairs_distinct d
             \<and> uuid4 w \<notin> set (map ci_id (cart_items d))
             \<and> (\<forall>i\<in>set (cart_items d).
                   \<not> (ci_user_id i = u_id cu \<and> ci_product_id i = cc_product_id c))
             \<and> cc_product_id c' = cc_product_id c
             \<and> int64 (cc_quantity c) \<and> int64 (cc_quantity c + cc_quantity c')"
  show "fst (add_to_cart w c cu d) = Inr ''Item added to cart''"
    using add_to_cart_twice(1) [OF p, of w cu c'] h by simp
  show "fst (add_to_cart w' c' cu (snd (add_to_cart w c cu d))) = Inr ''Cart item updated''"
    using add_to_cart_twice(2) [OF p, of w cu c' w'] h by simp
  show "cart_items (snd (add_to_cart w' c' cu (snd (add_to_cart w c cu d)))) =
              cart_items d @
                [\<lparr>ci_id = uuid4 w, ci_user_id = u_id cu, ci_product_id = cc_product_id c,
                  ci_quantity = cc_quantity c + cc_quantity c', ci_created_at = utcnow w\<rparr>]"
    using add_to_cart_twice(3) [OF p, of w cu c' w'] h by simp
next
  assume h: "cart_ids_distinct d \<and> cart_pairs_distinct d
        \<and> uuid4 w \<notin> set (map ci_id (cart_items d))"
  then show "cart_ids_distinct (snd (add_to_cart w c cu d))"
    and "cart_pairs_distinct (snd (add_to_cart w c cu d))"
    using add_to_cart_invariant [of d w c cu] by simp_all
qed

theorem add_to_cart_merge_witness:
  "map pd_id (products db_cart) = [''p1'', ''p2'']
   \<and> cart_items db_cart = [item_a1, item_b1]
   \<and> add_to_cart world0 add_p9 alice db_cart
       = (Inl (HTTPException 404 ''Product not found''), db_cart)
   \<and> add_to_cart world0 add_p2_two alice db_cart
       = (Inr ''Item added to cart'',
          db_cart\<lparr>cart_items := [item_a1, item_b1,
             \<lparr>ci_id = ''id1'', ci_user_id = ''u1'', ci_product_id = ''p2'',
              ci_quantity = 2, ci_created_at = 100\<rparr>]\<rparr>)
   \<and> add_to_cart world0 add_p1 alice db_cart
       = (Inr ''Cart item updated'',
          db_cart\<lparr>cart_items := [item_a1\<lparr>ci_quantity := 5\<rparr>, item_b1]\<rparr>)
   \<and> fst (add_to_cart world1 add_p2_three alice (snd (add_to_cart world0 add_p2_two alice db_cart)))
       = Inr ''Cart item updated''
   \<and> cart_items (snd (add_to_cart world1 add_p2_three alice
                        (snd (add_to_cart world0 add_p2_two alice db_cart))))
       = [item_a1, item_b1,
          \<lparr>ci_id = ''id1'', ci_user_id = ''u1'', ci_product_id = ''p2'',
           ci_quantity = 5, ci_created_at = 100\<rparr>]
   \<and> cart_ids_distinct (snd (add_to_cart world0 add_p2_two alice db_cart))
   \<and> cart_pairs_distinct (snd (add_to_cart world0 add_p2_two alice db_cart))"
proof -
  note defs = db_cart_def item_a1_def item_b1_def prod_a_def prod_b_def alice_def world0_def
    add_p1_def add_p2_two_def add_p2_three_def add_p9_def
    cart_ids_distinct_def cart_pairs_distinct_def
  have s: "map pd_id (products db_cart) = [''p1'', ''p2'']"
    "cart_items db_cart = [item_a1, item_b1]"
    by (simp_all add: defs)
  have n9: "\<forall>p\<in>set (products db_cart). pd_id p \<noteq> cc_product_id add_p9"
    by (simp add: defs)
  have p2: "\<exists>p\<in>set (products db_cart). pd_id p = cc_product_id add_p2_two"
    by (simp add: defs)
  have p1: "\<exists>p\<in>set (products db_cart). pd_id p = cc_product_id add_p1"
    by (simp add: defs)
  have none2: "(\<forall>i\<in>set (cart_items db_cart).
                 \<not> (ci_user_id i = u_id alice \<and> ci_product_id i = cc_product_id add_p2_two))
               \<and> int64 (cc_quantity add_p2_two)"
    by (simp add: defs int64_def)
  have wf: "cart_ids_distinct db_cart \<and> cart_pairs_distinct db_cart
            \<and> uuid4 world0 \<notin> set (map ci_id (cart_items db_cart))"
    by (simp add: defs)
  have own: "item_a1 \<in> set (cart_items db_cart) \<and> ci_user_id item_a1 = u_id alice
             \<and> ci_product_id item_a1 = cc_product_id add_p1
             \<and> int64 (ci_quantity item_a1 + cc_quantity add_p1)"
    by (simp add: defs int64_def)
  have same: "cc_product_id add_p2_three = cc_product_id add_p2_two
              \<and> int64 (cc_quantity add_p2_two + cc_quantity add_p2_three)"
    by (simp add: defs int64_def)
  have a: "add_to_cart world0 add_p9 alice db_cart
       = (Inl (HTTPException 404 ''Product not found''), db_cart)"
    using add_to_cart_merge [of db_cart add_p9 world0 alice] n9 by blast
  have b: "add_to_cart world0 add_p2_two alice db_cart =
            (Inr ''Item added to cart'',
             db_cart\<lparr>cart_items := cart_items db_cart @
                  [\<lparr>ci_id = uuid4 world0, ci_user_id = u_id alice,
                    ci_product_id = cc_product_id add_p2_two,
                    ci_quantity = cc_quantity add_p2_two, ci_created_at = utcnow world0\<rparr>]\<rparr>)"
    using add_to_cart_merge [of db_cart add_p2_two world0 alice] p2 none2 by blast
  have c: "add_to_cart world0 add_p1 alice db_cart =
            (Inr ''Cart item updated'',
             db_cart\<lparr>cart_items :=
                  map (\<lambda>i. if ci_id i = ci_id item_a1
                           then i\<lparr>ci_quantity := ci_quantity item_a1 + cc_quantity add_p1\<rparr>
                           else i)
                      (cart_items db_cart)\<rparr>)"
    using add_to_cart_merge [of db_cart add_p1 world0 alice item_a1] p1 wf own by blast
  have t: "fst (add_to_cart world1 add_p2_three alice
                  (snd (add_to_cart world0 add_p2_two alice db_cart)))
             = Inr ''Cart item updated''
           \<and> cart_items (snd (add_to_cart world1 add_p2_three alice
                                (snd (add_to_cart world0 add_p2_two alice db_cart)))) =
              cart_items db_cart @
                [\<lparr>ci_id = uuid4 world0, ci_user_id = u_id alice,
                  ci_product_id = cc_product_id add_p2_two,
                  ci_quantity = cc_quantity add_p2_two + cc_quantity add_p2_three,
                  ci_created_at = utcnow world0\<rparr>]"
    using add_to_cart_merge [of db_cart add_p2_two world0 alice item_a1 add_p2_three world1]
      p2 wf none2 same by blast
  have i: "cart_ids_distinct (snd (add_to_cart world0 add_p2_two alice db_cart))
           \<and> cart_pairs_distinct (snd (add_to_cart world0 add_p2_two alice db_cart))"
    using add_to_cart_merge [of db_cart add_p2_two world0 alice] wf by blast
  have b': "add_to_cart world0 add_p2_two alice db_cart
       = (Inr ''Item added to cart'',
          db_cart\<lparr>cart_items := [item_a1, item_b1,
             \<lparr>ci_id = ''id1'', ci_user_id = ''u1'', ci_product_id = ''p2'',
              ci_quantity = 2, ci_created_at = 100\<rparr>]\<rparr>)"
    unfolding b by (simp add: defs)
  have c': "add_to_cart world0 add_p1 alice db_cart
       = (Inr ''Cart item updated'',
          db_cart\<lparr>cart_items := [item_a1\<lparr>ci_quantity := 5\<rparr>, item_b1]\<rparr>)"
    unfolding c by (simp add: defs)
  have t': "cart_items (snd (add_to_cart world1 add_p2_three alice
                        (snd (add_to_cart world0 add_p2_two alice db_cart))))
       = [item_a1, item_b1,
          \<lparr>ci_id = ''id1'', ci_user_id = ''u1'', ci_product_id = ''p2'',
           ci_quantity = 5, ci_created_at = 100\<rparr>]"
    using t by (simp add: defs)
  from s a b' c' t t' i show ?thesis by blast
qed

text \<open>
  C1 as it is stated fails: the quantity \<open>2 ^ 63\<close> is no 8-byte integer. For a product
  that the caller has no item for, \<open>add_to_cart\<close> with that quantity raises
  \<open>OverflowError\<close> and creates no item; for the product that the caller has 2 of, an
  addition of \<open>2 ^ 63 - 2\<close> raises it and the quantity stays 2.
\<close>

theorem add_to_cart_counterexample:
  "map pd_id (products db_cart) = [''p1'', ''p2'']
   \<and> cart_items db_cart = [item_a1, item_b1]
   \<and> ci_user_id item_a1 = u_id alice \<and> ci_product_id item_a1 = ''p1''
   \<and> ci_quantity item_a1 = 2
   \<and> ci_product_id item_b1 = ''p1''
   \<and> add_to_cart world0 add_p2_big alice db_cart = (Inl OverflowError, db_cart)
   \<and> add_to_cart world0 add_p1_big alice db_cart = (Inl OverflowError, db_cart)"
proof -
  note defs = db_cart_def item_a1_def item_b1_def prod_a_def prod_b_def alice_def
    add_p2_big_def add_p1_big_def
  have s: "map pd_id (products db_cart) = [''p1'', ''p2'']"
    "cart_items db_cart = [item_a1, item_b1]"
    "ci_user_id item_a1 = u_id alice \<and> ci_product_id item_a1 = ''p1''"
    "ci_quantity item_a1 = 2" "ci_product_id item_b1 = ''p1''"
    by (simp_all add: defs)
  have a: "add_to_cart world0 add_p2_big alice db_cart = (Inl OverflowError, db_cart)"
    by (rule add_to_cart_new_overflow) (simp_all add: defs int64_def)
  have b: "add_to_cart world0 add_p1_big alice db_cart = (Inl OverflowError, db_cart)"
    by (rule add_to_cart_existing_overflow [of _ _ item_a1])
       (simp_all add: defs int64_def cart_pairs_distinct_def)
  from s a b show ?thesis by simp
qed

subsection \<open>Placing an order\<close>

lemma filter_filter_neg: "filter P (filter (\<lambda>x. \<not> P x) xs) = []"
  by (induction xs) auto

text \<open>
  C2. \<open>create_order\<close> returns and appends to \<open>db.orders\<close> an order that holds the items,
  the total amount and the shipping address of the request as they were submitted, for
  the calling user and with status \<open>pending\<close>. Afterwards no cart item of that user is
  left, whatever the submitted items are: the cart items of the store are those of the
  other users, and the cart listing of the caller is empty.
\<close>

theorem create_order_clears_cart:
  "fst (create_order w ord cu d) =
     \<lparr>o_id = uuid4 w, o_user_id = u_id cu, o_items = oc_items ord,
      o_total_amount = oc_total_amount ord, o_status = ''pending'',
      o_shipping_address = oc_shipping_address ord, o_created_at = utcnow w\<rparr>
   \<and> orders (snd (create_order w ord cu d)) = orders d @ [fst (create_order w ord cu d)]
   \<and> filter (\<lambda>i. ci_user_id i = u_id cu) (cart_items (snd (create_order w ord cu d))) = []
   \<and> cart_items (snd (create_order w ord cu d))
       = filter (\<lambda>i. ci_user_id i \<noteq> u_id cu) (cart_items d)
   \<and> get_cart cu (snd (create_order w ord cu d)) = Inr []
   \<and> users (snd (create_order w ord cu d)) = users d
   \<and> products (snd (create_order w ord cu d)) = products d"
  by (simp add: create_order_def Let_def insert_one_def delete_many_def get_cart_def
      find_to_list_def filter_filter_neg)

theorem create_order_clears_cart_witness:
  "cart_items db_cart = [item_a1, item_b1]
   \<and> fst (create_order world0 order_req alice db_cart) =
       \<lparr>o_id = ''id1'', o_user_id = ''u1'',
        o_items = [[(''product_id'', JStr ''zz''), (''quantity'', JNum 9)]],
        o_total_amount = 59.97, o_status = ''pending'',
        o_shipping_address = [(''city'', JStr ''Oslo'')], o_created_at = 100\<rparr>
   \<and> orders (snd (create_order world0 order_req alice db_cart))
       = [fst (create_order world0 order_req alice db_cart)]
   \<and> cart_items (snd (create_order world0 order_req alice db_cart)) = [item_b1]
   \<and> get_cart alice (snd (create_order world0 order_req alice db_cart)) = Inr []"
proof -
  have s: "cart_items db_cart = [item_a1, item_b1]" "orders db_cart = []"
    by (simp_all add: db_cart_def)
  have f: "filter (\<lambda>i. ci_user_id i \<noteq> u_id alice) (cart_items db_cart) = [item_b1]"
    by (simp add: db_cart_def item_a1_def item_b1_def alice_def)
  have o: "\<lparr>o_id = uuid4 world0, o_user_id = u_id alice, o_items = oc_items order_req,
      o_total_amount = oc_total_amount order_req, o_status = ''pending'',
      o_shipping_address = oc_shipping_address order_req, o_created_at = utcnow world0\<rparr>
     = \<lparr>o_id = ''id1'', o_user_id = ''u1'',
        o_items = [[(''product_id'', JStr ''zz''), (''quantity'', JNum 9)]],
        o_total_amount = 59.97, o_status = ''pending'',
        o_shipping_address = [(''city'', JStr ''Oslo'')], o_created_at = 100\<rparr>"
    by (simp add: world0_def alice_def order_req_def)
  from create_order_clears_cart [of world0 order_req alice db_cart] s f o
  show ?thesis by simp
qed

subsection \<open>Updating a product\<close>

lemma update_product_not_found:
  assumes "\<forall>p\<in>set (products d). pd_id p \<noteq> product_id"
  shows "update_product product_id pu d = (Inl (HTTPException 404 ''Product not found''), d)"
proof -
  from assms have "find_one (\<lambda>p. pd_id p = product_id) (products d) = None"
    by (simp add: find_one_None)
  then show ?thesis by (simp add: update_product_def)
qed

lemma find_one_key:
  assumes "distinct (map g xs)" and "x \<in> set xs"
  shows "find_one (\<lambda>y. g y = g x) xs = Some x"
proof -
  from assms(2) obtain e where e: "find_one (\<lambda>y. g y = g x) xs = Some e"
    using find_one_exists [of xs "\<lambda>y. g y = g x"] by blast
  from find_one_Some_set [OF e] assms have "e = x"
    using distinct_map_eq [of g xs e x] by simp
  with e show ?thesis by simp
qed

lemma find_one_map_key:
  assumes "x \<in> set xs" and "g (f x) = g x" and "distinct (map g xs)"
  shows "find_one (\<lambda>y. g y = g x) (map (\<lambda>y. if g y = g x then f y else y) xs) = Some (f x)"
  using assms
proof (induction xs)
  case Nil
  then show ?case by simp
next
  case (Cons y ys)
  show ?case
  proof (cases "g y = g x")
    case True
    have xy: "x = y"
      by (rule distinct_map_eq [OF Cons.prems(3) Cons.prems(1) _ True [symmetric]]) simp
    from Cons.prems(2) have "g (f y) = g y" unfolding xy .
    then show ?thesis unfolding xy by (simp add: find_one_def)
  next
    case False
    with Cons.prems(1) have mem: "x \<in> set ys" by auto
    from Cons.prems(3) have "distinct (map g ys)" by simp
    from Cons.IH [OF mem Cons.prems(2) this] False show ?thesis
      by (simp add: find_one_def)
  qed
qed

lemma set_update_data_id: "pd_id (set_update_data pu doc) = pd_id doc"
  by (simp add: set_update_data_def)

lemma set_update_data_empty: "update_data_empty pu \<Longrightarrow> set_update_data pu doc = doc"
  by (simp add: set_update_data_def update_data_empty_def)

lemma update_product_found:
  assumes ids: "products_ids_distinct d" and mem: "doc \<in> set (products d)"
  shows "update_product (pd_id doc) pu d =
           (Product (set_update_data pu doc),
            d\<lparr>products := map (\<lambda>p. if pd_id p = pd_id doc then set_update_data pu p else p)
                              (products d)\<rparr>)"
proof -
  from ids have dist: "distinct (map pd_id (products d))"
    by (simp add: products_ids_distinct_def)
  have f: "find_one (\<lambda>p. pd_id p = pd_id doc) (products d) = Some doc"
    by (rule find_one_key [OF dist mem])
  show ?thesis
  proof (cases "update_data_empty pu")
    case True
    have "map (\<lambda>p. if pd_id p = pd_id doc then set_update_data pu p else p) (products d)
            = products d"
      by (intro map_idI) (simp add: set_update_data_empty [OF True])
    with True f show ?thesis
      by (simp add: update_product_def set_update_data_empty)
  next
    case False
    have u: "update_one (\<lambda>p. pd_id p = pd_id doc) (set_update_data pu) (products d)
              = (1, map (\<lambda>p. if pd_id p = pd_id doc then set_update_data pu p else p) (products d))"
      by (rule update_one_id [OF dist mem])
    have r: "find_one (\<lambda>p. pd_id p = pd_id doc)
               (map (\<lambda>p. if pd_id p = pd_id doc then set_update_data pu p else p) (products d))
              = Some (set_update_data pu doc)"
      using find_one_map_key [of doc "products d" pd_id "set_update_data pu"] mem dist
      by (simp add: set_update_data_id)
    from False f u r show ?thesis
      by (simp add: update_product_def)
  qed
qed

text \<open>
  When no stored product has the id, \<open>update_product\<close> raises status 404
  \<open>Product not found\<close> and the store is unchanged. For a stored product, the document
  after the call has, in every field that the request sets, the value of the request,
  and in every other field, and in \<open>id\<close> and \<open>created_at\<close>, its previous value; no other
  document and no other collection changes; the result is the model built from that
  document. When the request sets no field, the store is left as it is and the result
  is built from the stored document, which is the stored record when that document is
  a valid \<open>Product\<close>.
\<close>

lemma update_product_partial:
  "((\<forall>p\<in>set (products d). pd_id p \<noteq> product_id) \<longrightarrow>
      update_product product_id pu d = (Inl (HTTPException 404 ''Product not found''), d))
   \<and> (products_ids_distinct d \<and> doc \<in> set (products d) \<and> pd_id doc = product_id \<longrightarrow>
        (\<exists>doc'. fst (update_product product_id pu d) = Product doc'
           \<and> products (snd (update_product product_id pu d))
               = map (\<lambda>p. if pd_id p = product_id then doc' else p) (products d)
           \<and> users (snd (update_product product_id pu d)) = users d
           \<and> cart_items (snd (update_product product_id pu d)) = cart_items d
           \<and> orders (snd (update_product product_id pu d)) = orders d
           \<and> pd_id doc' = pd_id doc \<and> pd_created_at doc' = pd_created_at doc
           \<and> pd_name doc' = (case pu_name pu of None \<Rightarrow> pd_name doc | Some v \<Rightarrow> v)
           \<and> pd_description doc'
               = (case pu_description pu of None \<Rightarrow> pd_description doc | Some v \<Rightarrow> v)
           \<and> pd_price doc' = (case pu_price pu of None \<Rightarrow> pd_price doc | Some v \<Rightarrow> v)
           \<and> pd_image_url doc'
               = (case pu_image_url pu of None \<Rightarrow> pd_image_url doc | Some v \<Rightarrow> v)
           \<and> pd_category doc'
               = (case pu_category pu of None \<Rightarrow> pd_category doc | Some v \<Rightarrow> v)
           \<and> pd_stock doc' = (case pu_stock pu of None \<Rightarrow> pd_stock doc | Some v \<Rightarrow> v))
        \<and> (update_data_empty pu \<longrightarrow>
             update_product product_id pu d = (Product doc, d))
        \<and> (update_data_empty pu \<and> Product doc = Inr p \<longrightarrow>
             update_product product_id pu d = (Inr p, d)))"
proof (intro conjI impI)
  assume "\<forall>p\<in>set (products d). pd_id p \<noteq> product_id"
  then show "update_product product_id pu d = (Inl (HTTPException 404 ''Product not found''), d)"
    by (rule update_product_not_found)
next
  assume h: "products_ids_distinct d \<and> doc \<in> set (products d) \<and> pd_id doc = product_id"
  then have u: "update_product product_id pu d =
           (Product (set_update_data pu doc),
            d\<lparr>products := map (\<lambda>p. if pd_id p = product_id then set_update_data pu p else p)
                              (products d)\<rparr>)"
    using update_product_found [of d doc pu] by auto
  from h have dist: "distinct (map pd_id (products d))"
    by (simp add: products_ids_distinct_def)
  have m: "map (\<lambda>p. if pd_id p = product_id then set_update_data pu p else p) (products d)
         = map (\<lambda>p. if pd_id p = product_id then set_update_data pu doc else p) (products d)"
  proof (rule map_cong [OF refl])
    fix p assume p: "p \<in> set (products d)"
    show "(if pd_id p = product_id then set_update_data pu p else p)
        = (if pd_id p = product_id then set_update_data pu doc else p)"
    proof (cases "pd_id p = product_id")
      case True
      with h p dist have "p = doc"
        using distinct_map_eq [of pd_id "products d" p doc] by simp
      then show ?thesis by simp
    next
      case False
      then show ?thesis by simp
    qed
  qed
  show "\<exists>doc'. fst (update_product product_id pu d) = Product doc'
           \<and> products (snd (update_product product_id pu d))
               = map (\<lambda>p. if pd_id p = product_id then doc' else p) (products d)
           \<and> users (snd (update_product product_id pu d)) = users d
           \<and> cart_items (snd (update_product product_id pu d)) = cart_items d
           \<and> orders (snd (update_product product_id pu d)) = orders d
           \<and> pd_id doc' = pd_id doc \<and> pd_created_at doc' = pd_created_at doc
           \<and> pd_name doc' = (case pu_name pu of None \<Rightarrow> pd_name doc | Some v \<Rightarrow> v)
           \<and> pd_description doc'
               = (case pu_description pu of None \<Rightarrow> pd_description doc | Some v \<Rightarrow> v)
           \<and> pd_price doc' = (case pu_price pu of None \<Rightarrow> pd_price doc | Some v \<Rightarrow> v)
           \<and> pd_image_url doc'
               = (case pu_image_url pu of None \<Rightarrow> pd_image_url doc | Some v \<Rightarrow> v)
           \<and> pd_category doc'
               = (case pu_category pu of None \<Rightarrow> pd_category doc | Some v \<Rightarrow> v)
           \<and> pd_stock doc' = (case pu_stock pu of None \<Rightarrow> pd_stock doc | Some v \<Rightarrow> v)"
    by (rule exI [of _ "set_update_data pu doc"])
       (simp add: u m, simp add: set_update_data_def)
next
  assume h: "products_ids_distinct d \<and> doc \<in> set (products d) \<and> pd_id doc = product_id"
    and e: "update_data_empty pu"
  from h have u: "update_product product_id pu d =
           (Product (set_update_data pu doc),
            d\<lparr>products := map (\<lambda>p. if pd_id p = product_id then set_update_data pu p else p)
                              (products d)\<rparr>)"
    using update_product_found [of d doc pu] by auto
  have "map (\<lambda>p. if pd_id p = product_id then set_update_data pu p else p) (products d)
          = products d"
    by (intro map_idI) (simp add: set_update_data_empty [OF e])
  with u show "update_product product_id pu d = (Product doc, d)"
    by (simp add: set_update_data_empty [OF e])
next
  assume h: "products_ids_distinct d \<and> doc \<in> set (products d) \<and> pd_id doc = product_id"
    and e: "update_data_empty pu \<and> Product doc = Inr p"
  from h have u: "update_product product_id pu d =
           (Product (set_update_data pu doc),
            d\<lparr>products := map (\<lambda>p. if pd_id p = product_id then set_update_data pu p else p)
                              (products d)\<rparr>)"
    using update_product_found [of d doc pu] by auto
  from e have e': "update_data_empty pu" by simp
  have "map (\<lambda>p. if pd_id p = product_id then set_update_data pu p else p) (products d)
          = products d"
    by (intro map_idI) (simp add: set_update_data_empty [OF e'])
  with u e show "update_product product_id pu d = (Inr p, d)"
    by (simp add: set_update_data_empty [OF e'])
qed

lemma update_product_partial_example:
  "products db_cart = [prod_a, prod_b]
   \<and> Product prod_a = Inr lamp
   \<and> update_product ''p9'' price_update db_cart
       = (Inl (HTTPException 404 ''Product not found''), db_cart)
   \<and> fst (update_product ''p1'' price_update db_cart)
       = Inr (lamp\<lparr>p_price := 25, p_stock := 9\<rparr>)
   \<and> products (snd (update_product ''p1'' price_update db_cart))
       = [prod_a\<lparr>pd_price := Some 25, pd_stock := Some 9\<rparr>, prod_b]
   \<and> cart_items (snd (update_product ''p1'' price_update db_cart)) = cart_items db_cart
   \<and> update_product ''p1'' no_update db_cart = (Inr lamp, db_cart)
   \<and> fst (update_product ''p1'' null_name_update db_cart) = Inl ValidationError
   \<and> products (snd (update_product ''p1'' null_name_update db_cart))
       = [prod_a\<lparr>pd_name := None\<rparr>, prod_b]"
proof -
  note defs = db_cart_def prod_a_def prod_b_def lamp_def no_update_def price_update_def
    null_name_update_def products_ids_distinct_def
  have s: "products db_cart = [prod_a, prod_b]" by (simp add: db_cart_def)
  have v: "Product prod_a = Inr lamp" by (simp add: Product_def defs)
  have n9: "\<forall>p\<in>set (products db_cart). pd_id p \<noteq> ''p9''" by (simp add: defs)
  have h: "products_ids_distinct db_cart \<and> prod_a \<in> set (products db_cart)
           \<and> pd_id prod_a = ''p1''"
    by (simp add: defs)
  have e: "update_data_empty no_update \<and> Product prod_a = Inr lamp"
    using v by (simp add: update_data_empty_def no_update_def)
  have a: "update_product ''p9'' price_update db_cart
       = (Inl (HTTPException 404 ''Product not found''), db_cart)"
    using update_product_partial [of db_cart "''p9''" price_update] n9 by blast
  have c: "update_product ''p1'' no_update db_cart = (Inr lamp, db_cart)"
    using update_product_partial [of db_cart "''p1''" no_update prod_a lamp] h e by blast
  from update_product_partial [of db_cart "''p1''" price_update prod_a] h
  obtain doc' where b: "fst (update_product ''p1'' price_update db_cart) = Product doc'"
    "products (snd (update_product ''p1'' price_update db_cart))
       = map (\<lambda>p. if pd_id p = ''p1'' then doc' else p) (products db_cart)"
    "cart_items (snd (update_product ''p1'' price_update db_cart)) = cart_items db_cart"
    "pd_id doc' = pd_id prod_a" "pd_created_at doc' = pd_created_at prod_a"
    "pd_name doc' = (case pu_name price_update of None \<Rightarrow> pd_name prod_a | Some v \<Rightarrow> v)"
    "pd_description doc'
       = (case pu_description price_update of None \<Rightarrow> pd_description prod_a | Some v \<Rightarrow> v)"
    "pd_price doc' = (case pu_price price_update of None \<Rightarrow> pd_price prod_a | Some v \<Rightarrow> v)"
    "pd_image_url doc'
       = (case pu_image_url price_update of None \<Rightarrow> pd_image_url prod_a | Some v \<Rightarrow> v)"
    "pd_category doc'
       = (case pu_category price_update of None \<Rightarrow> pd_category prod_a | Some v \<Rightarrow> v)"
    "pd_stock doc' = (case pu_stock price_update of None \<Rightarrow> pd_stock prod_a | Some v \<Rightarrow> v)"
    by blast
  from b(4-11) have d1: "doc' = prod_a\<lparr>pd_price := Some 25, pd_stock := Some 9\<rparr>"
    by (cases doc') (simp add: defs)
  have b1: "fst (update_product ''p1'' price_update db_cart)
       = Inr (lamp\<lparr>p_price := 25, p_stock := 9\<rparr>)"
    unfolding b(1) d1 by (simp add: Product_def defs)
  have b2: "products (snd (update_product ''p1'' price_update db_cart))
       = [prod_a\<lparr>pd_price := Some 25, pd_stock := Some 9\<rparr>, prod_b]"
    unfolding b(2) d1 by (simp add: defs)
  from update_product_partial [of db_cart "''p1''" null_name_update prod_a] h
  obtain doc2 where n: "fst (update_product ''p1'' null_name_update db_cart) = Product doc2"
    "products (snd (update_product ''p1'' null_name_update db_cart))
       = map (\<lambda>p. if pd_id p = ''p1'' then doc2 else p) (products db_cart)"
    "pd_id doc2 = pd_id prod_a" "pd_created_at doc2 = pd_created_at prod_a"
    "pd_name doc2 = (case pu_name null_name_update of None \<Rightarrow> pd_name prod_a | Some v \<Rightarrow> v)"
    "pd_description doc2
       = (case pu_description null_name_update of None \<Rightarrow> pd_description prod_a | Some v \<Rightarrow> v)"
    "pd_price doc2 = (case pu_price null_name_update of None \<Rightarrow> pd_price prod_a | Some v \<Rightarrow> v)"
    "pd_image_url doc2
       = (case pu_image_url null_name_update of None \<Rightarrow> pd_image_url prod_a | Some v \<Rightarrow> v)"
    "pd_category doc2
       = (case pu_category null_name_update of None \<Rightarrow> pd_category prod_a | Some v \<Rightarrow> v)"
    "pd_stock doc2 = (case pu_stock null_name_update of None \<Rightarrow> pd_stock prod_a | Some v \<Rightarrow> v)"
    by blast
  from n(3-10) have d2: "doc2 = prod_a\<lparr>pd_name := None\<rparr>"
    by (cases doc2) (simp add: defs)
  have n1: "fst (update_product ''p1'' null_name_update db_cart) = Inl ValidationError"
    unfolding n(1) d2 by (simp add: Product_def defs)
  have n2: "products (snd (update_product ''p1'' null_name_update db_cart))
       = [prod_a\<lparr>pd_name := None\<rparr>, prod_b]"
    unfolding n(2) d2 by (simp add: defs)
  from s v a b1 b2 b(3) c n1 n2 show ?thesis by blast
qed

text \<open>
  C7. An update that sets no field is to write nothing and to return the stored record.
  The code writes nothing, but it does not return the record of every stored product:
  an update of product \<open>p1\<close> that sets \<open>name\<close> to \<open>null\<close> is accepted and stored (and
  raises \<open>ValidationError\<close> itself); after it, the update of \<open>p1\<close> that sets no field
  raises \<open>ValidationError\<close> for the stored document.
\<close>

theorem update_product_empty_after_null:
  "products db_cart = [prod_a, prod_b]
   \<and> pd_id prod_a = ''p1''
   \<and> pu_name null_name_update = Some None
   \<and> update_product ''p1'' null_name_update db_cart = (Inl ValidationError, db_null)
   \<and> products db_null = [prod_a\<lparr>pd_name := None\<rparr>, prod_b]
   \<and> update_data_empty no_update
   \<and> update_product ''p1'' no_update db_null = (Inl ValidationError, db_null)"
proof -
  note defs = db_cart_def db_null_def prod_a_def prod_b_def null_name_update_def no_update_def
  have s: "products db_cart = [prod_a, prod_b]" "pd_id prod_a = ''p1''"
    "pu_name null_name_update = Some None"
    "products db_null = [prod_a\<lparr>pd_name := None\<rparr>, prod_b]"
    "update_data_empty no_update"
    by (simp_all add: defs update_data_empty_def)
  have v: "Product (prod_a\<lparr>pd_name := None\<rparr>) = Inl ValidationError"
    by (simp add: Product_def prod_a_def)
  have f: "find_one (\<lambda>p. pd_id p = ''p1'') [prod_a\<lparr>pd_name := None\<rparr>, prod_b]
             = Some (prod_a\<lparr>pd_name := None\<rparr>)"
    "find_one (\<lambda>p. pd_id p = ''p1'') [prod_a, prod_b] = Some prod_a"
    by (simp_all add: find_one_def prod_a_def)
  have u: "set_update_data null_name_update prod_a = prod_a\<lparr>pd_name := None\<rparr>"
    by (simp add: set_update_data_def null_name_update_def no_update_def)
  have e: "\<not> update_data_empty null_name_update"
    by (simp add: update_data_empty_def null_name_update_def no_update_def)
  have a: "update_product ''p1'' null_name_update db_cart = (Inl ValidationError, db_null)"
    using e by (simp add: update_product_def db_cart_def db_null_def f u v)
       (simp add: prod_a_def)
  have b: "update_product ''p1'' no_update db_null = (Inl ValidationError, db_null)"
    using s(5) by (simp add: update_product_def db_null_def db_cart_def f v)
  from s a b show ?thesis by simp
qed
subsection \<open>Listing with empty parameters\<close>

text \<open>
  C10. An empty string for \<open>category\<close> or for \<open>search\<close> adds no clause to the query, as
  an absent parameter: the listing is the same, and with both parameters empty it is the
  listing of the first 1000 stored products.
\<close>

theorem get_products_empty_parameter:
  "get_products (Some []) search d = get_products None search d
   \<and> get_products category (Some []) d = get_products category None d
   \<and> get_products (Some []) (Some []) d = get_products None None d
   \<and> get_products None None d = Some (Products (take 1000 (products d)))"
  by (simp add: get_products_def truthy_def compile_search_def matches_query_def
      find_to_list_def)

theorem get_products_empty_parameter_witness:
  "map pd_category (products db_cart) = [Some ''Home'', Some ''Kitchen'']
   \<and> get_products (Some []) (Some []) db_cart = Some (Inr [lamp, mug])
   \<and> get_products (Some []) None db_cart = Some (Inr [lamp, mug])
   \<and> get_products None (Some []) db_cart = Some (Inr [lamp, mug])"
proof -
  have c: "map pd_category (products db_cart) = [Some ''Home'', Some ''Kitchen'']"
    by (simp add: db_cart_def prod_a_def prod_b_def)
  have p: "Products (take 1000 (products db_cart)) = Inr [lamp, mug]"
    by (simp add: db_cart_def prod_a_def prod_b_def lamp_def mug_def Product_def)
  have n: "get_products None None db_cart = Some (Inr [lamp, mug])"
    using get_products_empty_parameter [of None db_cart None] p by simp
  have a: "get_products (Some []) (Some []) db_cart = get_products None None db_cart"
    using get_products_empty_parameter [of None db_cart None] by blast
  have b: "get_products (Some []) None db_cart = get_products None None db_cart"
    using get_products_empty_parameter [of None db_cart None] by blast
  have e: "get_products None (Some []) db_cart = get_products None None db_cart"
    using get_products_empty_parameter [of None db_cart None] by blast
  from c show ?thesis unfolding a b e n by simp
qed

subsection \<open>Price and stock\<close>






subsection \<open>Listing products\<close>

lemma parse_pattern_literal:
  "list_all ordinary s \<Longrightarrow> parse_pattern s = Some (map Lit s)"
proof (induction s)
  case Nil
  then show ?case by simp
next
  case (Cons c cs)
  from Cons.prems have c: "ordinary c" and cs: "list_all ordinary cs"
    by auto
  have "\<not> ordinary CHR ''.''" by (simp add: ordinary_def metachars_def)
  with c have "c \<noteq> CHR ''.''" by auto
  with c Cons.IH [OF cs] show ?case by simp
qed

lemma match_here_literal: "match_here (map Lit s) t = prefix (map lower s) (map lower t)"
proof (induction s arbitrary: t)
  case Nil
  then show ?case by simp
next
  case (Cons c cs)
  then show ?case by (cases t) simp_all
qed

lemma regex_search_literal: "regex_search (map Lit s) t = contains_ci s t"
proof (induction t)
  case Nil
  show ?case by (cases s) (simp_all add: contains_ci_def)
next
  case (Cons c cs)
  then show ?case
    by (simp add: contains_ci_def match_here_literal sublist_Cons_right)
qed

lemma Product_Inr: "Product doc = Inr p \<Longrightarrow> doc = product_dict p"
  by (cases doc) (auto simp: Product_def product_dict_def split: option.splits)

lemma Product_product_dict: "Product (product_dict p) = Inr p"
  by (simp add: Product_def product_dict_def)

lemma Products_Inr: "Products docs = Inr ps \<Longrightarrow> docs = map product_dict ps"
proof (induction docs arbitrary: ps)
  case Nil
  then show ?case by simp
next
  case (Cons doc docs)
  then show ?case
    by (auto split: sum.splits dest: Product_Inr)
qed

lemma Products_map: "Products (map product_dict ps) = Inr ps"
  by (induction ps) (simp_all add: Product_product_dict)

lemma find_to_list_map:
  "find_to_list P n (map f xs) = map f (take n (filter (\<lambda>x. P (f x)) xs))"
  by (simp add: find_to_list_def filter_map take_map comp_def)

lemma get_products_plain:
  assumes all: "Products (products d) = Inr all" and ns: "\<not> truthy search"
  shows "get_products category search d =
           Some (Inr (take 1000
             (filter (\<lambda>q. truthy category \<longrightarrow> category = Some (p_category q)) all)))"
proof -
  from ns have c: "compile_search search = Some None" by (simp add: compile_search_def)
  have m: "\<And>q. matches_query (if truthy category then category else None) None (product_dict q)
             = (truthy category \<longrightarrow> category = Some (p_category q))"
    by (auto simp: matches_query_def product_dict_def truthy_def split: option.splits)
  from Products_Inr [OF all] c show ?thesis
    by (simp add: get_products_def find_to_list_map m Products_map)
qed

lemma get_products_search:
  assumes all: "Products (products d) = Inr all"
    and s: "s \<noteq> []" and lit: "list_all ordinary s"
  shows "get_products category (Some s) d =
           Some (Inr (take 1000
             (filter (\<lambda>q. (truthy category \<longrightarrow> category = Some (p_category q))
                          \<and> (contains_ci s (p_name q) \<or> contains_ci s (p_description q)))
                     all)))"
proof -
  from s parse_pattern_literal [OF lit]
  have c: "compile_search (Some s) = Some (Some (map Lit s))"
    by (simp add: compile_search_def truthy_def)
  have m: "\<And>q. matches_query (if truthy category then category else None) (Some (map Lit s))
                  (product_dict q)
             = ((truthy category \<longrightarrow> category = Some (p_category q))
                \<and> (contains_ci s (p_name q) \<or> contains_ci s (p_description q)))"
    by (auto simp: matches_query_def product_dict_def truthy_def field_regex_def
        regex_search_literal split: option.splits)
  from Products_Inr [OF all] c show ?thesis
    by (simp add: get_products_def find_to_list_map m Products_map)
qed

text \<open>
  C4, as the code has it. On a store whose documents are all valid products: without a
  search string (absent or empty) the listing is the first 1000 products, or the first
  1000 products of the given category when a category that is not empty is given; with
  a search string that is not empty and consists of ordinary characters (so it has no
  metacharacter of the pattern language), it is the first 1000 products that are of the
  category (when one is given) and whose name or description contains the search
  string up to the case of letters. The search string is a pattern, not a literal: a
  metacharacter in it is interpreted.
\<close>

theorem get_products_filters:
  "Products (products d) = Inr all \<longrightarrow>
     (\<not> truthy search \<longrightarrow>
        get_products category search d =
          Some (Inr (take 1000
            (filter (\<lambda>q. truthy category \<longrightarrow> category = Some (p_category q)) all))))
     \<and> (s \<noteq> [] \<and> list_all ordinary s \<longrightarrow>
        get_products category (Some s) d =
          Some (Inr (take 1000
            (filter (\<lambda>q. (truthy category \<longrightarrow> category = Some (p_category q))
                         \<and> (contains_ci s (p_name q) \<or> contains_ci s (p_description q)))
                    all))))"
  using get_products_plain [of d all search category]
    get_products_search [of d all s category]
  by blast

theorem get_products_filters_witness:
  "Products (products db_cart) = Inr [lamp, mug]
   \<and> get_products None None db_cart = Some (Inr [lamp, mug])
   \<and> get_products (Some ''Kitchen'') None db_cart = Some (Inr [mug])
   \<and> get_products None (Some ''LAMP'') db_cart = Some (Inr [lamp])
   \<and> get_products (Some ''Kitchen'') (Some ''mug'') db_cart = Some (Inr [mug])
   \<and> get_products (Some ''Home'') (Some ''mug'') db_cart = Some (Inr [])"
proof -
  have all: "Products (products db_cart) = Inr [lamp, mug]"
    by (simp add: db_cart_def prod_a_def prod_b_def lamp_def mug_def Product_def)
  have t: "\<not> truthy None" "truthy (Some ''Kitchen'')" "truthy (Some ''Home'')"
    by (simp_all add: truthy_def)
  have l: "''LAMP'' \<noteq> [] \<and> list_all ordinary ''LAMP''"
    "''mug'' \<noteq> [] \<and> list_all ordinary ''mug''"
    by (simp_all add: ordinary_def metachars_def)
  have c: "contains_ci ''LAMP'' (p_name lamp)" "\<not> contains_ci ''LAMP'' (p_name mug)"
    "\<not> contains_ci ''LAMP'' (p_description mug)"
    "\<not> contains_ci ''mug'' (p_name lamp)" "\<not> contains_ci ''mug'' (p_description lamp)"
    "contains_ci ''mug'' (p_name mug)"
    by (simp_all add: contains_ci_def lamp_def mug_def lower_def sublist_Cons_right)
  have k: "p_category lamp = ''Home''" "p_category mug = ''Kitchen''"
    by (simp_all add: lamp_def mug_def)
  have a: "get_products None None db_cart = Some (Inr [lamp, mug])"
    using get_products_filters [of db_cart "[lamp, mug]" None None] all t by simp
  have b: "get_products (Some ''Kitchen'') None db_cart = Some (Inr [mug])"
    using get_products_filters [of db_cart "[lamp, mug]" None "Some ''Kitchen''"] all t k
    by simp
  have d: "get_products None (Some ''LAMP'') db_cart = Some (Inr [lamp])"
    using get_products_filters [of db_cart "[lamp, mug]" None None "''LAMP''"] all t l c
    by simp
  have e: "get_products (Some ''Kitchen'') (Some ''mug'') db_cart = Some (Inr [mug])"
    using get_products_filters [of db_cart "[lamp, mug]" None "Some ''Kitchen''" "''mug''"]
      all t l c k
    by simp
  have f: "get_products (Some ''Home'') (Some ''mug'') db_cart = Some (Inr [])"
    using get_products_filters [of db_cart "[lamp, mug]" None "Some ''Home''" "''mug''"]
      all t l c k
    by simp
  from all a b d e f show ?thesis by blast
qed

text \<open>
  C4 as it is stated fails: the search \<open>l.mp\<close> lists the product named \<open>Lamp\<close>, whose name
  and description do not contain the string \<open>l.mp\<close>.
\<close>

theorem get_products_search_counterexample:
  "products db_cart = [prod_a, prod_b]
   \<and> Products (products db_cart) = Inr [lamp, mug]
   \<and> get_products None (Some ''l.mp'') db_cart = Some (Inr [lamp])
   \<and> \<not> contains_ci ''l.mp'' (p_name lamp)
   \<and> \<not> contains_ci ''l.mp'' (p_description lamp)"
proof -
  have s: "products db_cart = [prod_a, prod_b]" by (simp add: db_cart_def)
  have all: "Products (products db_cart) = Inr [lamp, mug]"
    by (simp add: db_cart_def prod_a_def prod_b_def lamp_def mug_def Product_def)
  have p: "compile_search (Some ''l.mp'')
             = Some (Some [Lit CHR ''l'', AnyChar, Lit CHR ''m'', Lit CHR ''p''])"
    by (simp add: compile_search_def truthy_def ordinary_def metachars_def)
  have m: "filter (matches_query None (Some [Lit CHR ''l'', AnyChar, Lit CHR ''m'', Lit CHR ''p'']))
             [prod_a, prod_b] = [prod_a]"
    by (simp add: matches_query_def field_regex_def prod_a_def prod_b_def lower_def)
  have g0: "get_products None (Some ''l.mp'') db_cart
              = Some (Products (take 1000 (filter
                  (matches_query None
                     (Some [Lit CHR ''l'', AnyChar, Lit CHR ''m'', Lit CHR ''p'']))
                  (products db_cart))))"
    by (simp add: get_products_def p find_to_list_def truthy_def)
  have g1: "Products (take 1000 [prod_a]) = Inr [lamp]"
    by (simp add: prod_a_def lamp_def Product_def)
  have g: "get_products None (Some ''l.mp'') db_cart = Some (Inr [lamp])"
    unfolding g0 s m g1 ..
  have n: "\<not> contains_ci ''l.mp'' (p_name lamp)"
    "\<not> contains_ci ''l.mp'' (p_description lamp)"
    by (simp_all add: contains_ci_def lamp_def lower_def sublist_Cons_right)
  from s all g n show ?thesis by blast
qed

subsection \<open>Listing the cart\<close>

lemma find_one_product_dict:
  "find_one (\<lambda>p. pd_id p = k) (map product_dict all)
     = map_option product_dict (find (\<lambda>q. p_id q = k) all)"
  by (induction all) (simp_all add: find_one_def product_dict_def)

lemma get_cart_loop_closed:
  "get_cart_loop (map product_dict all) items acc =
     Inr (acc @ List.map_filter
        (\<lambda>i. map_option (\<lambda>q. \<lparr>ce_id = ci_id i, ce_quantity = ci_quantity i, ce_product = q\<rparr>)
                (find (\<lambda>q. p_id q = ci_product_id i) all)) items)"
proof (induction items arbitrary: acc)
  case Nil
  then show ?case by (simp add: map_filter_simps)
next
  case (Cons i items)
  show ?case
  proof (cases "find (\<lambda>q. p_id q = ci_product_id i) all")
    case None
    with Cons show ?thesis
      by (simp add: find_one_product_dict map_filter_simps)
  next
    case (Some q)
    with Cons show ?thesis
      by (simp add: find_one_product_dict map_filter_simps Product_product_dict)
  qed
qed

lemma get_cart_closed:
  assumes "Products (products d) = Inr all"
  shows "get_cart cu d =
     Inr (List.map_filter
        (\<lambda>i. map_option (\<lambda>q. \<lparr>ce_id = ci_id i, ce_quantity = ci_quantity i, ce_product = q\<rparr>)
                (find (\<lambda>q. p_id q = ci_product_id i) all))
        (take 1000 (filter (\<lambda>i. ci_user_id i = u_id cu) (cart_items d))))"
  using Products_Inr [OF assms] get_cart_loop_closed [of all _ "[]"]
  by (simp add: get_cart_def find_to_list_def)

lemma cart_entry_ids:
  "map ce_id (List.map_filter
        (\<lambda>i. map_option (\<lambda>q. \<lparr>ce_id = ci_id i, ce_quantity = ci_quantity i, ce_product = q\<rparr>)
                (find (\<lambda>q. p_id q = ci_product_id i) all)) items)
     = map ci_id (filter (\<lambda>i. ci_product_id i \<in> set (map p_id all)) items)"
proof (induction items)
  case Nil
  then show ?case by (simp add: map_filter_simps)
next
  case (Cons i items)
  show ?case
  proof (cases "find (\<lambda>q. p_id q = ci_product_id i) all")
    case None
    then have "ci_product_id i \<notin> set (map p_id all)"
      by (auto simp: find_None_iff)
    with None Cons show ?thesis by (simp add: map_filter_simps)
  next
    case (Some q)
    then have "q \<in> set all \<and> p_id q = ci_product_id i"
      using find_one_Some_set [of "\<lambda>q. p_id q = ci_product_id i" all q]
      by (simp add: find_one_def)
    then have "ci_product_id i \<in> set (map p_id all)"
      by force
    with Some Cons show ?thesis by (simp add: map_filter_simps)
  qed
qed

text \<open>
  The listings build a \<open>Product\<close> from every document they return. After an update that
  sets a required field to \<open>null\<close>, the document is not a valid \<open>Product\<close> and both
  listings raise; the statements on the listings below are therefore about stores whose
  product documents are all valid.
\<close>

lemma listing_invalid_document:
  "get_products None None (snd (update_product ''p1'' null_name_update db_cart))
     = Some (Inl ValidationError)
   \<and> get_cart alice (snd (update_product ''p1'' null_name_update db_cart))
     = Inl ValidationError"
proof -
  have u: "snd (update_product ''p1'' null_name_update db_cart)
             = db_cart\<lparr>products := [prod_a\<lparr>pd_name := None\<rparr>, prod_b]\<rparr>"
    by (simp add: update_product_def find_one_def update_data_empty_def set_update_data_def
        Let_def db_cart_def prod_a_def prod_b_def null_name_update_def no_update_def)
  have v: "Product (prod_a\<lparr>pd_name := None\<rparr>) = Inl ValidationError"
    by (simp add: Product_def prod_a_def)
  have a: "get_products None None (db_cart\<lparr>products := [prod_a\<lparr>pd_name := None\<rparr>, prod_b]\<rparr>)
             = Some (Inl ValidationError)"
    by (simp add: get_products_def truthy_def compile_search_def matches_query_def
        find_to_list_def v)
  have f: "find_to_list (\<lambda>i. ci_user_id i = u_id alice) 1000 [item_a1, item_b1] = [item_a1]"
    by (simp add: find_to_list_def item_a1_def item_b1_def alice_def)
  have l: "find_one (\<lambda>p. pd_id p = ci_product_id item_a1) [prod_a\<lparr>pd_name := None\<rparr>, prod_b]
             = Some (prod_a\<lparr>pd_name := None\<rparr>)"
    by (simp add: find_one_def item_a1_def prod_a_def)
  have b: "get_cart alice (db_cart\<lparr>products := [prod_a\<lparr>pd_name := None\<rparr>, prod_b]\<rparr>)
             = Inl ValidationError"
    by (simp add: get_cart_def db_cart_def f l v)
  from a b show ?thesis unfolding u by simp
qed

text \<open>
  C9, as the code has it. On a store whose product documents are all valid, the cart
  listing takes the first 1000 cart items of the user, in the order of the store, and has
  one entry, with the id and the quantity of the item and with the product, for each of
  them whose product id is that of a stored product; an item whose product is not stored
  gets no entry and raises nothing.
\<close>

theorem get_cart_entries:
  "Products (products d) = Inr all \<longrightarrow>
     get_cart cu d =
       Inr (List.map_filter
          (\<lambda>i. map_option
                  (\<lambda>q. \<lparr>ce_id = ci_id i, ce_quantity = ci_quantity i, ce_product = q\<rparr>)
                  (find (\<lambda>q. p_id q = ci_product_id i) all))
          (take 1000 (filter (\<lambda>i. ci_user_id i = u_id cu) (cart_items d))))
     \<and> (\<exists>es. get_cart cu d = Inr es
          \<and> map ce_id es =
              map ci_id (filter (\<lambda>i. ci_product_id i \<in> set (map p_id all))
                (take 1000 (filter (\<lambda>i. ci_user_id i = u_id cu) (cart_items d)))))"
  using get_cart_closed [of d all cu] by (simp add: cart_entry_ids)

theorem get_cart_entries_witness:
  "Products (products db_dangling) = Inr [lamp, mug]
   \<and> cart_items db_dangling = [item_a1, item_b1, item_a2]
   \<and> ci_product_id item_a2 \<notin> set (map pd_id (products db_dangling))
   \<and> get_cart alice db_dangling
       = Inr [\<lparr>ce_id = ''c1'', ce_quantity = 2, ce_product = lamp\<rparr>]"
proof -
  note defs = db_dangling_def db_cart_def prod_a_def prod_b_def lamp_def mug_def
    item_a1_def item_b1_def item_a2_def alice_def
  have all: "Products (products db_dangling) = Inr [lamp, mug]"
    by (simp add: defs Product_def)
  have s: "cart_items db_dangling = [item_a1, item_b1, item_a2]"
    "ci_product_id item_a2 \<notin> set (map pd_id (products db_dangling))"
    by (simp_all add: defs)
  have f: "take 1000 (filter (\<lambda>i. ci_user_id i = u_id alice) (cart_items db_dangling))
             = [item_a1, item_a2]"
    by (simp add: defs)
  have g: "get_cart alice db_dangling =
       Inr (List.map_filter
          (\<lambda>i. map_option
                  (\<lambda>q. \<lparr>ce_id = ci_id i, ce_quantity = ci_quantity i, ce_product = q\<rparr>)
                  (find (\<lambda>q. p_id q = ci_product_id i) [lamp, mug]))
          (take 1000 (filter (\<lambda>i. ci_user_id i = u_id alice) (cart_items db_dangling))))"
    using get_cart_entries [of db_dangling "[lamp, mug]" alice] all by blast
  have "get_cart alice db_dangling
       = Inr [\<lparr>ce_id = ''c1'', ce_quantity = 2, ce_product = lamp\<rparr>]"
    unfolding g f
    by (simp add: map_filter_simps lamp_def mug_def item_a1_def item_a2_def)
  with all s show ?thesis by blast
qed

lemma big_ids_distinct: "distinct (map p_id (map big_product [0..<m]))"
  by (simp add: distinct_map comp_def big_product_def inj_on_def)

lemma big_find:
  assumes "n < m"
  shows "find (\<lambda>q. p_id q = ci_product_id (big_item n)) (map big_product [0..<m])
           = Some (big_product n)"
proof -
  from assms have mem: "big_product n \<in> set (map big_product [0..<m])" by simp
  have "find_one (\<lambda>q. p_id q = p_id (big_product n)) (map big_product [0..<m])
          = Some (big_product n)"
    by (rule find_one_key [OF big_ids_distinct mem])
  then show ?thesis by (simp add: find_one_def big_product_def big_item_def)
qed

lemma big_entries:
  assumes "\<forall>n\<in>set ns. n < m"
  shows "List.map_filter
          (\<lambda>i. map_option
                  (\<lambda>q. \<lparr>ce_id = ci_id i, ce_quantity = ci_quantity i, ce_product = q\<rparr>)
                  (find (\<lambda>q. p_id q = ci_product_id i) (map big_product [0..<m])))
          (map big_item ns) = map big_entry ns"
  using assms
proof (induction ns)
  case Nil
  then show ?case by (simp add: map_filter_simps)
next
  case (Cons n ns)
  then have "n < m" by simp
  from big_find [OF this] Cons show ?case
    by (simp add: map_filter_simps) (simp add: big_item_def big_entry_def)
qed

text \<open>
  C9 as it is stated fails: a user has 1001 cart items, each for a stored product, and
  the listing has the 1000 entries of the first 1000 items; the last item has no entry.
\<close>

theorem get_cart_limit_counterexample:
  "length (filter (\<lambda>i. ci_user_id i = u_id alice
                       \<and> ci_product_id i \<in> set (map pd_id (products big_db)))
            (cart_items big_db)) = 1001
   \<and> distinct (map ci_id (cart_items big_db))
   \<and> distinct (map pd_id (products big_db))
   \<and> get_cart alice big_db = Inr (map big_entry [0..<1000])
   \<and> length (map big_entry [0..<1000]) = 1000
   \<and> big_item 1000 \<in> set (cart_items big_db)
   \<and> ci_id (big_item 1000) \<notin> set (map ce_id (map big_entry [0..<1000]))"
proof -
  have all: "Products (products big_db) = Inr (map big_product [0..<1001])"
    using Products_map [of "map big_product [0..<1001]"]
    by (simp add: big_db_def comp_def)
  have owned: "filter (\<lambda>i. ci_user_id i = u_id alice) (cart_items big_db)
                 = map big_item [0..<1001]"
    by (simp add: big_db_def filter_map comp_def big_item_def alice_def)
  have "take 1000 (map big_item [0..<1001]) = map big_item (take 1000 [0..<1001])"
    by (rule take_map)
  also have "take 1000 [0..<1001] = [0..<1000]" by simp
  finally have tk: "take 1000 (map big_item [0..<1001]) = map big_item [0..<1000]" .
  have lt: "\<forall>n\<in>set [0..<1000]. n < (1001::nat)" by simp
  have g: "get_cart alice big_db = Inr (map big_entry [0..<1000])"
    unfolding get_cart_closed [OF all] owned tk big_entries [OF lt] ..
  have refs: "filter (\<lambda>i. ci_user_id i = u_id alice
                       \<and> ci_product_id i \<in> set (map pd_id (products big_db)))
            (cart_items big_db) = map big_item [0..<1001]"
    by (simp add: big_db_def filter_map comp_def big_item_def alice_def big_product_def
        product_dict_def image_iff)
  have c: "length (filter (\<lambda>i. ci_user_id i = u_id alice
                       \<and> ci_product_id i \<in> set (map pd_id (products big_db)))
            (cart_items big_db)) = 1001"
    unfolding refs by simp
  have d1: "distinct (map ci_id (cart_items big_db))"
    by (simp add: big_db_def distinct_map comp_def big_item_def inj_on_def)
  have d2: "distinct (map pd_id (products big_db))"
    by (simp add: big_db_def distinct_map comp_def big_product_def product_dict_def inj_on_def)
  have l: "length (map big_entry [0..<1000]) = 1000" by simp
  have m: "big_item 1000 \<in> set (cart_items big_db)"
    by (simp add: big_db_def)
  have n: "ci_id (big_item 1000) \<notin> set (map ce_id (map big_entry [0..<1000]))"
    by (auto simp: big_item_def big_entry_def)
  from c d1 d2 g l m n show ?thesis by blast
qed

end
